theory Spec2Isabelle
  imports Main "HOL-Library.List_Lexorder" "HOL-Library.Char_ord" "HOL-Library.Product_Lexorder"
begin

section \<open>Python strings\<close>

text \<open>
  A Python \<open>str\<close> is modelled as a \<open>string\<close> whose characters are ASCII code points,
  so that \<open>length\<close> is Python's \<open>len\<close>. The functions below are the \<open>str\<close> methods
  the tool handlers call.
\<close>

abbreviation NL :: char where
  "NL \<equiv> CHR 0x0A"

fun startswith :: "string \<Rightarrow> string \<Rightarrow> bool" where
  "startswith s [] = True"
| "startswith [] (p # ps) = False"
| "startswith (c # cs) (p # ps) = (c = p \<and> startswith cs ps)"

definition endswith :: "string \<Rightarrow> string \<Rightarrow> bool" where
  "endswith s suf = startswith (rev s) (rev suf)"

text \<open>\<open>contains sub s\<close> is Python's \<open>sub in s\<close>.\<close>

fun contains :: "string \<Rightarrow> string \<Rightarrow> bool" where
  "contains sub [] = (sub = [])"
| "contains sub (c # cs) = (startswith (c # cs) sub \<or> contains sub cs)"

definition lower_char :: "char \<Rightarrow> char" where
  "lower_char c =
     (case map_of (zip ''ABCDEFGHIJKLMNOPQRSTUVWXYZ'' ''abcdefghijklmnopqrstuvwxyz'') c of
        Some d \<Rightarrow> d
      | None \<Rightarrow> c)"

definition lower :: "string \<Rightarrow> string" where
  "lower s = map lower_char s"

text \<open>The characters \<open>str.strip()\<close> removes: tab, line feed, vertical tab, form feed,
  carriage return, the four separators \<open>0x1C\<close> to \<open>0x1F\<close>, and the space.\<close>

definition is_space :: "char \<Rightarrow> bool" where
  "is_space c = (c \<in> set [CHR 0x09, CHR 0x0A, CHR 0x0B, CHR 0x0C, CHR 0x0D,
                          CHR 0x1C, CHR 0x1D, CHR 0x1E, CHR 0x1F, CHR 0x20])"

definition strip :: "string \<Rightarrow> string" where
  "strip s = rev (dropWhile is_space (rev (dropWhile is_space s)))"

text \<open>\<open>split_on c s\<close> is \<open>s.split(c)\<close> for a one-character separator: it never
  returns the empty list.\<close>

fun split_on :: "char \<Rightarrow> string \<Rightarrow> string list" where
  "split_on sep [] = [[]]"
| "split_on sep (c # cs) =
     (if c = sep then [] # split_on sep cs
      else (case split_on sep cs of
              [] \<Rightarrow> [[c]]
            | l # ls \<Rightarrow> (c # l) # ls))"

fun join :: "string \<Rightarrow> string list \<Rightarrow> string" where
  "join sep [] = []"
| "join sep [x] = x"
| "join sep (x # y # ys) = x @ sep @ join sep (y # ys)"

function str_nat :: "nat \<Rightarrow> string" where
  "str_nat n =
     (if n < 10 then [''0123456789'' ! n]
      else str_nat (n div 10) @ [''0123456789'' ! (n mod 10)])"
  by pat_completeness auto
termination
  by (relation "measure id") auto

declare str_nat.simps [simp del]

definition str_int :: "int \<Rightarrow> string" where
  "str_int i = (if i < 0 then CHR ''-'' # str_nat (nat (- i)) else str_nat (nat i))"

text \<open>Python's slice \<open>xs[:n]\<close>: a negative \<open>n\<close> counts from the end.\<close>

definition slice_to :: "int \<Rightarrow> 'a list \<Rightarrow> 'a list" where
  "slice_to n xs = (if 0 \<le> n then take (nat n) xs else take (length xs - nat (- n)) xs)"

text \<open>An exception caught by a handler, kept as the text \<open>str(e)\<close> gives.\<close>

datatype exn = Exn string

fun str_exn :: "exn \<Rightarrow> string" where
  "str_exn (Exn m) = m"

section \<open>The world the handlers act on\<close>

text \<open>
  A POSIX file system without symbolic links and permissions: a node is a regular file
  (with its text) or a directory, found under its list of path components from the
  root. The root is the empty list. A file holds its bytes. The texts are ASCII, so a
  byte is a character and decoding and encoding leave the text as it is; what reading
  in text mode does to the line ends is \<open>universal_newlines\<close> below.
\<close>

datatype node = File string | Dir

type_synonym tree = "string list \<Rightarrow> node option"

text \<open>
  A child process, as \<open>subprocess.Popen\<close> starts it: how many seconds it runs when it
  is left alone (\<open>None\<close>: it never exits), what it has written to its two pipes after
  so many seconds, the status it exits with, what it has done to the file system after
  so many seconds, and the second at which waiting for it is interrupted, if it is (the
  one way \<open>communicate()\<close> raises). The child is taken as one process that holds
  its two pipes: they close when it ends or is killed. A shell whose own children keep
  the pipes open after the shell was killed is not described by this record.
\<close>

record child =
  finishes_after :: "nat option"
  stdout_by :: "nat \<Rightarrow> string"
  stderr_by :: "nat \<Rightarrow> string"
  exit_status :: int
  effect_by :: "nat \<Rightarrow> tree \<Rightarrow> tree"
  interrupted_at :: "nat option"

record world =
  fs :: tree
  cwd :: "string list"
  clock :: string
  spawn :: "string \<Rightarrow> string \<Rightarrow> child"

text \<open>The configuration values the handlers read with \<open>config.get\<close>.\<close>

record config =
  max_file_size_mb :: int
  allowed_directories :: "string list"
  blocked_directories :: "string list"
  max_output_lines :: int
  allowed_commands :: "string list"
  blocked_commands :: "string list"
  enable_file_operations :: bool
  enable_terminal :: bool
  enable_edit_operations :: bool

section \<open>Paths (\<open>os.path\<close> on POSIX)\<close>

definition getcwd :: "world \<Rightarrow> string" where
  "getcwd w = CHR ''/'' # join ''/'' (cwd w)"

definition isabs :: "string \<Rightarrow> bool" where
  "isabs p = startswith p ''/''"

definition path_join :: "string \<Rightarrow> string \<Rightarrow> string" where
  "path_join a b =
     (if startswith b ''/'' then b
      else if a = [] \<or> endswith a ''/'' then a @ b
      else a @ ''/'' @ b)"

text \<open>One round of the loop of \<open>normpath\<close> over the components.\<close>

definition norm_step :: "bool \<Rightarrow> string \<Rightarrow> string list \<Rightarrow> string list" where
  "norm_step initial part new_comps =
     (if part = [] \<or> part = ''.'' then new_comps
      else if part \<noteq> ''..'' \<or> (\<not> initial \<and> new_comps = [])
              \<or> (new_comps \<noteq> [] \<and> last new_comps = ''..'')
      then new_comps @ [part]
      else if new_comps \<noteq> [] then butlast new_comps
      else new_comps)"

definition normpath :: "string \<Rightarrow> string" where
  "normpath path =
     (if path = [] then ''.''
      else
        let initial_slashes =
              (if startswith path ''//'' \<and> \<not> startswith path ''///'' then 2
               else if startswith path ''/'' then 1 else (0::nat));
            comps = fold (norm_step (initial_slashes \<noteq> 0)) (split_on CHR ''/'' path) [];
            p = replicate initial_slashes CHR ''/'' @ join ''/'' comps
        in if p = [] then ''.'' else p)"

definition abspath :: "world \<Rightarrow> string \<Rightarrow> string" where
  "abspath w path = normpath (if isabs path then path else path_join (getcwd w) path)"

section \<open>FileOperations: the path permit check\<close>

text \<open>
  \<open>_is_path_allowed\<close> of \<open>file_operations.py\<close>. Each loop returns at the first
  directory that matches, which is what \<open>find\<close> gives.
\<close>

definition is_path_allowed :: "config \<Rightarrow> world \<Rightarrow> string \<Rightarrow> bool \<times> string" where
  "is_path_allowed cfg w file_path =
     (let abs_path = abspath w file_path
      in case find (\<lambda>blocked_dir. startswith abs_path (abspath w blocked_dir))
                (blocked_directories cfg) of
           Some blocked_dir \<Rightarrow> (False, ''Access denied: '' @ blocked_dir @ '' is blocked'')
         | None \<Rightarrow>
             if allowed_directories cfg \<noteq> []
                \<and> find (\<lambda>allowed_dir. startswith abs_path (abspath w allowed_dir))
                     (allowed_directories cfg) = None
             then (False, ''Access denied: Path not in allowed directories'')
             else (True, ''OK''))"

section \<open>TerminalOperations: the command permit check\<close>

text \<open>
  \<open>shlex.split\<close> in its default POSIX mode, splitting at white space only: the lexer's
  states are between tokens, in a word, in a quotation, and after a backslash (which
  remembers the state to go back to). An open quotation or a backslash at the end
  raises \<open>ValueError\<close>.
\<close>

datatype lex_state = Between | In_word | In_quote char | Escaped lex_state

definition shlex_space :: "char \<Rightarrow> bool" where
  "shlex_space c = (c \<in> set [CHR 0x20, CHR 0x09, CHR 0x0D, CHR 0x0A])"

definition shlex_quote :: "char \<Rightarrow> bool" where
  "shlex_quote c = (c = CHR 0x27 \<or> c = CHR 0x22)"

fun read_tokens :: "lex_state \<Rightarrow> string \<Rightarrow> string \<Rightarrow> exn + string list" where
  "read_tokens Between token [] = Inr []"
| "read_tokens In_word token [] = Inr [token]"
| "read_tokens (In_quote q) token [] = Inl (Exn ''No closing quotation'')"
| "read_tokens (Escaped st) token [] = Inl (Exn ''No escaped character'')"
| "read_tokens Between token (c # cs) =
     (if shlex_space c then read_tokens Between [] cs
      else if c = CHR 0x5C then read_tokens (Escaped In_word) [] cs
      else if shlex_quote c then read_tokens (In_quote c) [] cs
      else read_tokens In_word [c] cs)"
| "read_tokens In_word token (c # cs) =
     (if shlex_space c then
        (case read_tokens Between [] cs of
           Inl e \<Rightarrow> Inl e
         | Inr rest \<Rightarrow> Inr (token # rest))
      else if shlex_quote c then read_tokens (In_quote c) token cs
      else if c = CHR 0x5C then read_tokens (Escaped In_word) token cs
      else read_tokens In_word (token @ [c]) cs)"
| "read_tokens (In_quote q) token (c # cs) =
     (if c = q then read_tokens In_word token cs
      else if q = CHR 0x22 \<and> c = CHR 0x5C then read_tokens (Escaped (In_quote q)) token cs
      else read_tokens (In_quote q) (token @ [c]) cs)"
| "read_tokens (Escaped st) token (c # cs) =
     (case st of
        In_quote q \<Rightarrow>
          read_tokens st ((if c \<noteq> CHR 0x5C \<and> c \<noteq> q then token @ [CHR 0x5C] else token) @ [c]) cs
      | _ \<Rightarrow> read_tokens st (token @ [c]) cs)"

definition shlex_split :: "string \<Rightarrow> exn + string list" where
  "shlex_split s = read_tokens Between [] s"

text \<open>
  \<open>_is_command_allowed\<close> of \<open>terminal_operations.py\<close>. \<open>shlex.split\<close> may raise; the
  exception leaves the function (\<open>Inl\<close>) and is caught by the caller.
\<close>

definition is_command_allowed :: "config \<Rightarrow> string \<Rightarrow> exn + bool \<times> string" where
  "is_command_allowed cfg command =
     (let command_lower = strip (lower command)
      in case find (\<lambda>blocked. contains (lower blocked) command_lower) (blocked_commands cfg) of
           Some blocked \<Rightarrow> Inr (False, ''Command blocked: contains '' @ [CHR 0x27] @ blocked @ [CHR 0x27])
         | None \<Rightarrow>
             if allowed_commands cfg \<noteq> [] then
               (case shlex_split command_lower of
                  Inl e \<Rightarrow> Inl e
                | Inr [] \<Rightarrow> Inr (True, ''OK'')
                | Inr (base_command # _) \<Rightarrow>
                    if base_command \<notin> set (map lower (allowed_commands cfg))
                    then Inr (False, ''Command not allowed: '' @ [CHR 0x27] @ base_command @ [CHR 0x27])
                    else Inr (True, ''OK''))
             else Inr (True, ''OK''))"

section \<open>JSON values and tool results\<close>

text \<open>
  The values \<open>json.loads\<close> gives and \<open>json.dumps\<close> takes (numbers are integers here).
  A dictionary keeps its keys in the order they were written, so it is a list of pairs;
  \<open>d.get(k, default)\<close> is \<open>get\<close>. A tool result is the dictionary a handler returns.
\<close>

datatype json = JNull | JBool bool | JInt int | JStr string | JList "json list"
  | JObj "(string \<times> json) list"

type_synonym result = "(string \<times> json) list"

definition get :: "(string \<times> json) list \<Rightarrow> string \<Rightarrow> json \<Rightarrow> json" where
  "get d k dflt = (case map_of d k of None \<Rightarrow> dflt | Some v \<Rightarrow> v)"

definition failure :: "string \<Rightarrow> result" where
  "failure message = [(''success'', JBool False), (''error'', JStr message)]"

text \<open>\<open>json.dumps\<close> with its defaults: the separators are a comma and a colon, each
  followed by a space, and every character outside the printable ASCII range, the double
  quote and the backslash are escaped.\<close>

definition hex4 :: "nat \<Rightarrow> string" where
  "hex4 n = map (\<lambda>k. ''0123456789abcdef'' ! ((n div 16 ^ k) mod 16)) [3, 2, 1, 0]"

definition escape_char :: "char \<Rightarrow> string" where
  "escape_char c =
     (if c = CHR 0x22 then [CHR 0x5C, CHR 0x22]
      else if c = CHR 0x5C then [CHR 0x5C, CHR 0x5C]
      else if c = CHR 0x0A then [CHR 0x5C, CHR ''n'']
      else if c = CHR 0x0D then [CHR 0x5C, CHR ''r'']
      else if c = CHR 0x09 then [CHR 0x5C, CHR ''t'']
      else if c = CHR 0x08 then [CHR 0x5C, CHR ''b'']
      else if c = CHR 0x0C then [CHR 0x5C, CHR ''f'']
      else if (of_char c :: nat) < 32 \<or> 126 < (of_char c :: nat)
      then [CHR 0x5C, CHR ''u''] @ hex4 (of_char c)
      else [c])"

definition dumps_str :: "string \<Rightarrow> string" where
  "dumps_str s = [CHR 0x22] @ concat (map escape_char s) @ [CHR 0x22]"

fun json_dumps :: "json \<Rightarrow> string" where
  "json_dumps JNull = ''null''"
| "json_dumps (JBool b) = (if b then ''true'' else ''false'')"
| "json_dumps (JInt i) = str_int i"
| "json_dumps (JStr s) = dumps_str s"
| "json_dumps (JList xs) = ''['' @ join '', '' (map json_dumps xs) @ '']''"
| "json_dumps (JObj kvs) =
     ''{'' @ join '', '' (map (\<lambda>(k, v). dumps_str k @ '': '' @ json_dumps v) kvs) @ ''}''"



section \<open>Files (\<open>os\<close>, \<open>os.path\<close>, \<open>open\<close> on POSIX)\<close>

text \<open>
  Path resolution walks the components: each step needs a directory to step from; an
  empty component and \<open>.\<close> stay, \<open>..\<close> goes up, a name goes down. The empty path
  names nothing.
\<close>

fun walk :: "tree \<Rightarrow> string list \<Rightarrow> string list \<Rightarrow> string list option" where
  "walk t cur [] = Some cur"
| "walk t cur (c # cs) =
     (if t cur \<noteq> Some Dir then None
      else if c = [] \<or> c = ''.'' then walk t cur cs
      else if c = ''..'' then walk t (butlast cur) cs
      else walk t (cur @ [c]) cs)"

definition resolve :: "world \<Rightarrow> string \<Rightarrow> string list option" where
  "resolve w path =
     (if path = [] then None
      else walk (fs w) (if isabs path then [] else cwd w) (split_on CHR ''/'' path))"

definition lookup :: "world \<Rightarrow> string \<Rightarrow> node option" where
  "lookup w path = (case resolve w path of None \<Rightarrow> None | Some k \<Rightarrow> fs w k)"

definition exists :: "world \<Rightarrow> string \<Rightarrow> bool" where
  "exists w path = (lookup w path \<noteq> None)"

definition isfile :: "world \<Rightarrow> string \<Rightarrow> bool" where
  "isfile w path = (case lookup w path of Some (File text) \<Rightarrow> True | _ \<Rightarrow> False)"

definition isdir :: "world \<Rightarrow> string \<Rightarrow> bool" where
  "isdir w path = (lookup w path = Some Dir)"

text \<open>\<open>repr\<close> of a text: in apostrophes, or in double quotes when the text has an
  apostrophe and no double quote; the backslash, the quote used, the line feed, the
  carriage return, the tabulator and the other control characters are escaped.\<close>

definition hex2 :: "nat \<Rightarrow> string" where
  "hex2 n = map (\<lambda>k. ''0123456789abcdef'' ! ((n div 16 ^ k) mod 16)) [1, 0]"

definition repr_char :: "char \<Rightarrow> char \<Rightarrow> string" where
  "repr_char quote c =
     (if c = CHR 0x5C then [CHR 0x5C, CHR 0x5C]
      else if c = quote then [CHR 0x5C, quote]
      else if c = CHR 0x0A then [CHR 0x5C, CHR ''n'']
      else if c = CHR 0x0D then [CHR 0x5C, CHR ''r'']
      else if c = CHR 0x09 then [CHR 0x5C, CHR ''t'']
      else if (of_char c :: nat) < 32 \<or> (of_char c :: nat) = 127
      then [CHR 0x5C, CHR ''x''] @ hex2 (of_char c)
      else [c])"

definition repr :: "string \<Rightarrow> string" where
  "repr s =
     (let quote = (if CHR 0x27 \<in> set s \<and> CHR 0x22 \<notin> set s then CHR 0x22 else CHR 0x27)
      in [quote] @ concat (map (repr_char quote) s) @ [quote])"

definition no_such_file :: "string \<Rightarrow> exn" where
  "no_such_file path = Exn (''[Errno 2] No such file or directory: '' @ repr path)"

definition is_a_directory :: "string \<Rightarrow> exn" where
  "is_a_directory path = Exn (''[Errno 21] Is a directory: '' @ repr path)"

definition not_a_directory :: "string \<Rightarrow> exn" where
  "not_a_directory path = Exn (''[Errno 20] Not a directory: '' @ repr path)"

definition file_exists :: "string \<Rightarrow> exn" where
  "file_exists path = Exn (''[Errno 17] File exists: '' @ repr path)"

text \<open>
  Where the walk stops: the node it cannot step from and the components left. The walk
  that ends gives the node it has reached and no component.
\<close>

fun stuck :: "tree \<Rightarrow> string list \<Rightarrow> string list \<Rightarrow> node option \<times> string list" where
  "stuck t cur [] = (t cur, [])"
| "stuck t cur (c # cs) =
     (if t cur \<noteq> Some Dir then (t cur, c # cs)
      else if c = [] \<or> c = ''.'' then stuck t cur cs
      else if c = ''..'' then stuck t (butlast cur) cs
      else stuck t (cur @ [c]) cs)"

definition stuck_at :: "world \<Rightarrow> string \<Rightarrow> node option \<times> string list" where
  "stuck_at w path =
     stuck (fs w) (if isabs path then [] else cwd w) (split_on CHR ''/'' path)"

text \<open>
  The error of a path that names nothing. For \<open>open(path, 'r')\<close>, \<open>os.stat\<close> and
  \<open>os.remove\<close>: a regular file on the way is not a directory, anything else is
  missing. For \<open>open(path, 'w')\<close>, which may create the file: a path whose walk stops
  with nothing but its trailing slashes left is taken for a directory.
\<close>

definition missing_error :: "world \<Rightarrow> string \<Rightarrow> exn" where
  "missing_error w path =
     (if path = [] then no_such_file path
      else (case fst (stuck_at w path) of
              Some (File text) \<Rightarrow> not_a_directory path
            | _ \<Rightarrow> no_such_file path))"

definition create_error :: "world \<Rightarrow> string \<Rightarrow> exn" where
  "create_error w path =
     (if path = [] then no_such_file path
      else if snd (stuck_at w path) \<noteq> [] \<and> list_all (\<lambda>c. c = []) (snd (stuck_at w path))
      then is_a_directory path
      else missing_error w path)"

text \<open>\<open>os.path.getsize\<close>: the number of bytes.\<close>

definition getsize :: "world \<Rightarrow> string \<Rightarrow> exn + int" where
  "getsize w path =
     (case lookup w path of
        None \<Rightarrow> Inl (missing_error w path)
      | Some Dir \<Rightarrow> Inr 4096
      | Some (File text) \<Rightarrow> Inr (int (length text)))"

text \<open>\<open>open(path, 'rb').read()\<close>: the bytes as they are.\<close>

definition read_bytes :: "world \<Rightarrow> string \<Rightarrow> exn + string" where
  "read_bytes w path =
     (case lookup w path of
        None \<Rightarrow> Inl (missing_error w path)
      | Some Dir \<Rightarrow> Inl (is_a_directory path)
      | Some (File text) \<Rightarrow> Inr text)"

text \<open>Reading in text mode gives every line end as a line feed: a carriage return
  followed by a line feed, and a carriage return alone, are read as one line feed.\<close>

abbreviation CR :: char where
  "CR \<equiv> CHR 0x0D"

fun universal_newlines :: "string \<Rightarrow> string" where
  "universal_newlines [] = []"
| "universal_newlines [c] = [if c = CR then NL else c]"
| "universal_newlines (c # d # cs) =
     (if c = CR \<and> d = NL then NL # universal_newlines cs
      else if c = CR then NL # universal_newlines (d # cs)
      else c # universal_newlines (d # cs))"

text \<open>\<open>open(path, 'r', encoding='utf-8').read()\<close>. \<open>read_file\<close> opens the file with
  \<open>errors='ignore'\<close> and \<open>edit_file\<close> without: for ASCII bytes the two read the same.\<close>

definition read_text :: "world \<Rightarrow> string \<Rightarrow> exn + string" where
  "read_text w path =
     (case read_bytes w path of
        Inl e \<Rightarrow> Inl e
      | Inr bytes \<Rightarrow> Inr (universal_newlines bytes))"

text \<open>\<open>open(path, 'w').write(text)\<close>: the file is made or replaced; the directory it
  goes into has to be there. The text is written as it is (on POSIX the line feed is the
  line end of the file).\<close>

definition write_text :: "world \<Rightarrow> string \<Rightarrow> string \<Rightarrow> exn + world" where
  "write_text w path text =
     (case resolve w path of
        None \<Rightarrow> Inl (create_error w path)
      | Some k \<Rightarrow>
          if fs w k = Some Dir then Inl (is_a_directory path)
          else Inr (w\<lparr>fs := (fs w)(k \<mapsto> File text)\<rparr>))"

text \<open>\<open>os.remove\<close>.\<close>

definition os_remove :: "world \<Rightarrow> string \<Rightarrow> exn + world" where
  "os_remove w path =
     (case resolve w path of
        None \<Rightarrow> Inl (missing_error w path)
      | Some k \<Rightarrow>
          (case fs w k of
             None \<Rightarrow> Inl (no_such_file path)
           | Some Dir \<Rightarrow> Inl (is_a_directory path)
           | Some (File text) \<Rightarrow> Inr (w\<lparr>fs := (fs w)(k := None)\<rparr>)))"

text \<open>
  \<open>os.makedirs(path, exist_ok=True)\<close> makes every directory of the path that is
  missing, from the top, and raises where a regular file stands in the way: the file
  exists when it is what the whole path names, and is not a directory when the path goes
  on after it; the error then names the path up to the first component after the file.
  The directories made before it raises stay, so the tree is returned in both cases.
\<close>

definition path_through :: "string \<Rightarrow> string list \<Rightarrow> string" where
  "path_through path cs =
     (let parts = split_on CHR ''/'' path
      in join ''/'' (take (length parts - length (dropWhile (\<lambda>c. c = []) cs) + 1) parts))"

fun mkdirs :: "string \<Rightarrow> tree \<Rightarrow> string list \<Rightarrow> string list \<Rightarrow> exn option \<times> tree" where
  "mkdirs path t cur [] = (None, t)"
| "mkdirs path t cur (c # cs) =
     (if t cur \<noteq> Some Dir then (Some (no_such_file path), t)
      else if c = [] \<or> c = ''.'' then mkdirs path t cur cs
      else if c = ''..'' then mkdirs path t (butlast cur) cs
      else (case t (cur @ [c]) of
              None \<Rightarrow> mkdirs path (t(cur @ [c] \<mapsto> Dir)) (cur @ [c]) cs
            | Some Dir \<Rightarrow> mkdirs path t (cur @ [c]) cs
            | Some (File text) \<Rightarrow>
                (Some (if list_all (\<lambda>x. x = []) cs then file_exists path
                       else not_a_directory (path_through path cs)), t)))"

definition makedirs :: "world \<Rightarrow> string \<Rightarrow> exn option \<times> world" where
  "makedirs w path =
     (if path = [] then (Some (no_such_file path), w)
      else
        let (e, t) = mkdirs path (fs w) (if isabs path then [] else cwd w) (split_on CHR ''/'' path)
        in (e, w\<lparr>fs := t\<rparr>))"

text \<open>\<open>os.path.dirname\<close> and \<open>os.path.basename\<close>: the path is cut after its last
  slash; the head loses its trailing slashes unless it is made of slashes only.\<close>

definition dirname :: "string \<Rightarrow> string" where
  "dirname p =
     (let head = rev (dropWhile (\<lambda>c. c \<noteq> CHR ''/'') (rev p))
      in if head \<noteq> [] \<and> head \<noteq> replicate (length head) CHR ''/''
         then rev (dropWhile (\<lambda>c. c = CHR ''/'') (rev head))
         else head)"

definition basename :: "string \<Rightarrow> string" where
  "basename p = rev (takeWhile (\<lambda>c. c \<noteq> CHR ''/'') (rev p))"


section \<open>What the handlers take from elsewhere\<close>

text \<open>
  \<open>mimetypes.guess_type\<close> (its first component), the scan of \<open>grep_search\<close> (the files
  \<open>glob\<close> finds and the lines \<open>re\<close> matches in them, capped at the number given), the
  two handlers no statement below is about, and what a handler does with an argument
  whose type is not the one the tool catalogue declares (\<open>ill_typed\<close>, given the name of
  the tool and its arguments) are parameters of the model.
\<close>

record grep_match =
  match_file :: string
  line_number :: int
  line_content :: string
  match_positions :: "(int \<times> int) list"

record externals =
  guess_type :: "string \<Rightarrow> string option"
  grep_scan :: "world \<Rightarrow> int \<Rightarrow> string \<Rightarrow> string \<Rightarrow> string \<Rightarrow> exn + grep_match list"
  search_files :: "world \<Rightarrow> string \<Rightarrow> string \<Rightarrow> result"
  list_directory :: "config \<Rightarrow> world \<Rightarrow> string \<Rightarrow> bool \<Rightarrow> result"
  ill_typed :: "string \<Rightarrow> json \<Rightarrow> world \<Rightarrow> result \<times> world"

text \<open>How an f-string prints a value that may be \<open>None\<close>.\<close>

definition str_opt :: "string option \<Rightarrow> string" where
  "str_opt s = (case s of None \<Rightarrow> ''None'' | Some t \<Rightarrow> t)"

section \<open>FileOperations\<close>

definition max_file_size :: "config \<Rightarrow> int" where
  "max_file_size cfg = max_file_size_mb cfg * 1024 * 1024"

definition truncation_marker :: "int \<Rightarrow> string" where
  "truncation_marker max_lines =
     [NL] @ ''... (truncated, showing first '' @ str_int max_lines @ '' lines)''"

text \<open>\<open>read_file\<close>: the checks in the order of the source, then the text, cut to the
  configured number of lines.\<close>

definition read_file :: "externals \<Rightarrow> config \<Rightarrow> world \<Rightarrow> string \<Rightarrow> result" where
  "read_file ext cfg w file_path =
     (let (allowed, message) = is_path_allowed cfg w file_path
      in if \<not> allowed then failure message
         else if \<not> exists w file_path then failure (''File not found: '' @ file_path)
         else if \<not> isfile w file_path then failure (''Path is not a file: '' @ file_path)
         else
           (case getsize w file_path of
              Inl e \<Rightarrow> failure (str_exn e)
            | Inr file_size \<Rightarrow>
                if file_size > max_file_size cfg
                then failure (''File too large: '' @ str_int file_size @ '' bytes (max: ''
                                @ str_int (max_file_size cfg) @ '')'')
                else
                  let mime_type = guess_type ext file_path;
                      is_binary = (mime_type \<noteq> None \<and> mime_type \<noteq> Some []
                                   \<and> \<not> startswith (str_opt mime_type) ''text/'')
                  in if is_binary
                     then failure (''Cannot read binary file: '' @ file_path @ '' (type: ''
                                     @ str_opt mime_type @ '')'')
                     else
                       (case read_text w file_path of
                          Inl e \<Rightarrow> failure (str_exn e)
                        | Inr content \<Rightarrow>
                            let max_lines = max_output_lines cfg;
                                lines = split_on NL content;
                                content' =
                                  (if int (length lines) > max_lines
                                   then join [NL] (slice_to max_lines lines)
                                        @ truncation_marker max_lines
                                   else content)
                            in [(''success'', JBool True),
                                (''content'', JStr content'),
                                (''file_path'', JStr file_path),
                                (''size'', JInt file_size),
                                (''lines'', JInt (int (length lines)))])))"

definition delete_file :: "config \<Rightarrow> world \<Rightarrow> string \<Rightarrow> result \<times> world" where
  "delete_file cfg w file_path =
     (let (allowed, message) = is_path_allowed cfg w file_path
      in if \<not> allowed then (failure message, w)
         else if \<not> exists w file_path then (failure (''File not found: '' @ file_path), w)
         else if \<not> isfile w file_path then (failure (''Path is not a file: '' @ file_path), w)
         else
           (case os_remove w file_path of
              Inl e \<Rightarrow> (failure (str_exn e), w)
            | Inr w' \<Rightarrow>
                ([(''success'', JBool True),
                  (''message'', JStr (''File deleted successfully: '' @ file_path))], w')))"

definition create_file :: "config \<Rightarrow> world \<Rightarrow> string \<Rightarrow> string \<Rightarrow> result \<times> world" where
  "create_file cfg w file_path content =
     (let (allowed, message) = is_path_allowed cfg w file_path
      in if \<not> allowed then (failure message, w)
         else
           let directory = dirname file_path;
               (raised, w1) = (if directory \<noteq> [] \<and> \<not> exists w directory
                               then makedirs w directory else (None, w))
           in case raised of
                Some e \<Rightarrow> (failure (str_exn e), w1)
              | None \<Rightarrow>
                  if exists w1 file_path
                  then (failure (''File already exists: '' @ file_path), w1)
                  else
                    (case write_text w1 file_path content of
                       Inl e \<Rightarrow> (failure (str_exn e), w1)
                     | Inr w2 \<Rightarrow>
                         ([(''success'', JBool True),
                           (''message'', JStr (''File created successfully: '' @ file_path)),
                           (''size'', JInt (int (length content)))], w2)))"

section \<open>EditOperations\<close>

text \<open>\<open>shutil.copy2\<close>: into a directory the copy keeps the name of the source; a file
  is not copied onto itself. The bytes are copied as they are.\<close>

definition copy2 :: "world \<Rightarrow> string \<Rightarrow> string \<Rightarrow> exn + world" where
  "copy2 w src dst =
     (let dst' = (if isdir w dst then path_join dst (basename src) else dst)
      in if exists w dst' \<and> resolve w src = resolve w dst'
         then Inl (Exn (repr src @ '' and '' @ repr dst' @ '' are the same file''))
         else
           (case read_bytes w src of
              Inl e \<Rightarrow> Inl e
            | Inr bytes \<Rightarrow> write_text w dst' bytes))"

definition backup_dir :: string where
  "backup_dir = ''backups''"

text \<open>\<open>_create_backup\<close> returns a pair: \<open>(True, None)\<close> when there is nothing to copy,
  \<open>(True, backup_path)\<close> after the copy, \<open>(False, str(e))\<close> when the copy raised. The
  time stamp is the clock of the world.\<close>

definition create_backup :: "world \<Rightarrow> string \<Rightarrow> (bool \<times> string option) \<times> world" where
  "create_backup w file_path =
     (if \<not> exists w file_path then ((True, None), w)
      else
        let (raised, w1) = makedirs w backup_dir
        in case raised of
             Some e \<Rightarrow> ((False, Some (str_exn e)), w1)
           | None \<Rightarrow>
               let timestamp = clock w1;
                   backup_name = basename file_path @ ''.'' @ timestamp @ ''.backup'';
                   backup_path = path_join backup_dir backup_name
               in case copy2 w1 file_path backup_path of
                    Inl e \<Rightarrow> ((False, Some (str_exn e)), w1)
                  | Inr w2 \<Rightarrow> ((True, Some backup_path), w2))"

text \<open>\<open>readlines()\<close>: the lines of the text read, each with its line feed; the last
  one has none when the text does not end with one. \<open>edit_file\<close> applies it to what
  \<open>read_text\<close> gives, where every line end is a line feed.\<close>

fun readlines :: "string \<Rightarrow> string list" where
  "readlines [] = []"
| "readlines (c # cs) =
     (if c = NL then [NL] # readlines cs
      else (case readlines cs of
              [] \<Rightarrow> [[c]]
            | l # ls \<Rightarrow> (c # l) # ls))"

text \<open>The replacement lines, as \<open>edit_file\<close> builds them from the content.\<close>

definition new_content_lines :: "string \<Rightarrow> string list" where
  "new_content_lines content =
     (let pieces = split_on NL content
      in if \<not> endswith content [NL]
         then map (\<lambda>line. line @ [NL]) (butlast pieces) @ [last pieces]
         else map (\<lambda>line. line @ [NL]) pieces)"

text \<open>The slice assignment \<open>xs[i:j] = ys\<close> of Python, for any two integers.\<close>

definition slice_index :: "nat \<Rightarrow> int \<Rightarrow> nat" where
  "slice_index n i = (if i < 0 then nat (max 0 (int n + i)) else min (nat i) n)"

definition slice_assign :: "'a list \<Rightarrow> int \<Rightarrow> int \<Rightarrow> 'a list \<Rightarrow> 'a list" where
  "slice_assign xs i j ys =
     (let lo = slice_index (length xs) i;
          hi = max lo (slice_index (length xs) j)
      in take lo xs @ ys @ drop hi xs)"

definition json_opt :: "string option \<Rightarrow> json" where
  "json_opt s = (case s of None \<Rightarrow> JNull | Some t \<Rightarrow> JStr t)"

definition edit_file ::
  "config \<Rightarrow> world \<Rightarrow> string \<Rightarrow> string \<Rightarrow> int option \<Rightarrow> int option \<Rightarrow> result \<times> world" where
  "edit_file cfg w file_path content start_line end_line =
     (let (allowed, message) = is_path_allowed cfg w file_path
      in if \<not> allowed then (failure message, w)
         else
           let ((backup_success, backup_path), w1) = create_backup w file_path
           in if \<not> backup_success
              then (failure (''Failed to create backup: '' @ str_opt backup_path), w1)
              else
                (case (start_line, end_line) of
                   (Some start_line, Some end_line) \<Rightarrow>
                     if \<not> exists w1 file_path
                     then (failure (''File not found: '' @ file_path), w1)
                     else
                       (case read_text w1 file_path of
                          Inl e \<Rightarrow> (failure (str_exn e), w1)
                        | Inr text \<Rightarrow>
                            let lines = readlines text
                            in if start_line < 1 \<or> end_line < start_line
                                  \<or> start_line > int (length lines)
                               then (failure (''Invalid line range: '' @ str_int start_line @ ''-''
                                        @ str_int end_line @ '' (file has ''
                                        @ str_int (int (length lines)) @ '' lines)''), w1)
                               else
                                 let lines' = slice_assign lines (start_line - 1) end_line
                                                (new_content_lines content)
                                 in case write_text w1 file_path (concat lines') of
                                      Inl e \<Rightarrow> (failure (str_exn e), w1)
                                    | Inr w2 \<Rightarrow>
                                        ([(''success'', JBool True),
                                          (''message'', JStr (''File edited successfully (lines ''
                                             @ str_int start_line @ ''-'' @ str_int end_line
                                             @ ''): '' @ file_path)),
                                          (''backup_path'', json_opt backup_path),
                                          (''lines_modified'', JInt (end_line - start_line + 1)),
                                          (''new_lines'',
                                             JInt (int (length (new_content_lines content))))],
                                         w2))
                 | _ \<Rightarrow>
                     let directory = dirname file_path;
                         (raised, w2) = (if directory \<noteq> [] \<and> \<not> exists w1 directory
                                         then makedirs w1 directory else (None, w1))
                     in case raised of
                          Some e \<Rightarrow> (failure (str_exn e), w2)
                        | None \<Rightarrow>
                            (case write_text w2 file_path content of
                               Inl e \<Rightarrow> (failure (str_exn e), w2)
                             | Inr w3 \<Rightarrow>
                                 ([(''success'', JBool True),
                                   (''message'', JStr (''File edited successfully: '' @ file_path)),
                                   (''backup_path'', json_opt backup_path),
                                   (''size'', JInt (int (length content))),
                                   (''lines'', JInt (int (length (split_on NL content))))],
                                  w3))))"

section \<open>TerminalOperations\<close>

text \<open>
  \<open>process.communicate()\<close> under \<open>Timer(timeout, process.kill)\<close>. The call has no
  time limit of its own: it returns when the process has ended, by itself or killed by
  the timer (then with the status \<open>-9\<close> of the signal), and it returns then what the
  pipes hold (they close with the process, as the record \<open>child\<close> has it). It raises
  only when the wait is interrupted. The time at which the process
  stopped is returned too.
\<close>

definition communicate :: "child \<Rightarrow> nat \<Rightarrow> (exn + string \<times> string \<times> int) \<times> nat" where
  "communicate process timeout =
     (case interrupted_at process of
        Some t \<Rightarrow> (Inl (Exn ''interrupted''), t)
      | None \<Rightarrow>
          (case finishes_after process of
             Some t \<Rightarrow>
               if t < timeout
               then (Inr (stdout_by process t, stderr_by process t, exit_status process), t)
               else (Inr (stdout_by process timeout, stderr_by process timeout, - 9), timeout)
           | None \<Rightarrow>
               (Inr (stdout_by process timeout, stderr_by process timeout, - 9), timeout)))"

definition cap_lines :: "int \<Rightarrow> string \<Rightarrow> string" where
  "cap_lines max_lines text =
     (let lines = split_on NL text
      in if int (length lines) > max_lines
         then join [NL] (slice_to max_lines lines) @ truncation_marker max_lines
         else text)"

definition execute_command :: "config \<Rightarrow> world \<Rightarrow> string \<Rightarrow> string \<Rightarrow> result \<times> world" where
  "execute_command cfg w command working_directory =
     (case is_command_allowed cfg command of
        Inl e \<Rightarrow> (failure (str_exn e), w)
      | Inr (allowed, message) \<Rightarrow>
          if \<not> allowed then (failure message, w)
          else if \<not> exists w working_directory
          then (failure (''Working directory not found: '' @ working_directory), w)
          else if \<not> isdir w working_directory
          then (failure (''Working directory is not a directory: '' @ working_directory), w)
          else
            let process = spawn w command working_directory;
                timeout = 30;
                (outcome, stopped) = communicate process timeout;
                w' = w\<lparr>fs := effect_by process stopped (fs w)\<rparr>
            in case outcome of
                 Inl e \<Rightarrow>
                   (failure (''Command timed out after '' @ str_int (int timeout) @ '' seconds''), w')
               | Inr (stdout, stderr, returncode) \<Rightarrow>
                   ([(''success'', JBool True),
                     (''command'', JStr command),
                     (''working_directory'', JStr working_directory),
                     (''stdout'', JStr (cap_lines (max_output_lines cfg) stdout)),
                     (''stderr'', JStr (cap_lines (max_output_lines cfg) stderr)),
                     (''return_code'', JInt returncode),
                     (''stdout_lines'', JInt (int (length (split_on NL stdout)))),
                     (''stderr_lines'', JInt (int (length (split_on NL stderr))))], w'))"

section \<open>SearchOperations\<close>

definition match_json :: "grep_match \<Rightarrow> json" where
  "match_json m =
     JObj [(''file'', JStr (match_file m)),
           (''line_number'', JInt (line_number m)),
           (''line_content'', JStr (line_content m)),
           (''match_positions'',
              JList (map (\<lambda>(a, b). JList [JInt a, JInt b]) (match_positions m)))]"

text \<open>\<open>grep_search\<close>: the scan is a parameter; it is given the cap at which the source
  leaves its loops. \<open>grep_outcome\<close> is what the caller reads of the result: the error
  (\<open>success\<close> false) or the matches.\<close>

definition grep_outcome ::
  "externals \<Rightarrow> config \<Rightarrow> world \<Rightarrow> string \<Rightarrow> string \<Rightarrow> string \<Rightarrow> string + grep_match list" where
  "grep_outcome ext cfg w pattern directory file_pattern =
     (if \<not> exists w directory then Inl (''Directory not found: '' @ directory)
      else
        (case grep_scan ext w (max_output_lines cfg) pattern directory file_pattern of
           Inl e \<Rightarrow> Inl (str_exn e)
         | Inr matches \<Rightarrow> Inr matches))"

definition grep_search ::
  "externals \<Rightarrow> config \<Rightarrow> world \<Rightarrow> string \<Rightarrow> string \<Rightarrow> string \<Rightarrow> result" where
  "grep_search ext cfg w pattern directory file_pattern =
     (case grep_outcome ext cfg w pattern directory file_pattern of
        Inl message \<Rightarrow> failure message
      | Inr matches \<Rightarrow>
          [(''success'', JBool True),
           (''pattern'', JStr pattern),
           (''directory'', JStr directory),
           (''file_pattern'', JStr file_pattern),
           (''matches'', JList (map match_json matches)),
           (''total_found'', JInt (int (length matches))),
           (''truncated'', JBool (int (length matches) \<ge> max_output_lines cfg))])"

definition default_file_types :: "string list" where
  "default_file_types = [''*.py'', ''*.js'', ''*.ts'', ''*.java'', ''*.cpp'', ''*.c'', ''*.h'']"

text \<open>The first loop of \<open>codebase_search\<close>: one \<open>grep_search\<close> for each glob, the
  matches of those that succeed put end to end.\<close>

fun all_matches ::
  "externals \<Rightarrow> config \<Rightarrow> world \<Rightarrow> string \<Rightarrow> string list \<Rightarrow> grep_match list" where
  "all_matches ext cfg w query [] = []"
| "all_matches ext cfg w query (file_type # file_types) =
     (case grep_outcome ext cfg w query ''.'' file_type of
        Inl message \<Rightarrow> all_matches ext cfg w query file_types
      | Inr matches \<Rightarrow> matches @ all_matches ext cfg w query file_types)"

text \<open>The second loop: a match is kept when its file and line number have not been
  seen.\<close>

fun unique_matches :: "(string \<times> int) list \<Rightarrow> grep_match list \<Rightarrow> grep_match list" where
  "unique_matches seen [] = []"
| "unique_matches seen (m # ms) =
     (let key = (match_file m, line_number m)
      in if key \<notin> set seen then m # unique_matches (key # seen) ms
         else unique_matches seen ms)"

definition codebase_search ::
  "externals \<Rightarrow> config \<Rightarrow> world \<Rightarrow> string \<Rightarrow> string list option \<Rightarrow> result" where
  "codebase_search ext cfg w query file_types =
     (let file_types = (case file_types of None \<Rightarrow> default_file_types | Some fts \<Rightarrow> fts);
          unique = unique_matches [] (all_matches ext cfg w query file_types);
          sorted_matches = sort_key (\<lambda>x. (match_file x, line_number x)) unique
      in [(''success'', JBool True),
          (''query'', JStr query),
          (''file_types'', JList (map JStr file_types)),
          (''matches'', JList (map match_json (slice_to (max_output_lines cfg) sorted_matches))),
          (''total_found'', JInt (int (length sorted_matches))),
          (''truncated'', JBool (int (length sorted_matches) \<ge> max_output_lines cfg))])"

section \<open>The proxy: tool catalogue\<close>

definition property :: "string \<Rightarrow> string \<Rightarrow> (string \<times> json) list \<Rightarrow> json" where
  "property ty description extra =
     JObj ([(''type'', JStr ty), (''description'', JStr description)] @ extra)"

definition tool :: "string \<Rightarrow> string \<Rightarrow> (string \<times> json) list \<Rightarrow> string list \<Rightarrow> json" where
  "tool name description properties required =
     JObj [(''type'', JStr ''function''),
           (''function'',
              JObj [(''name'', JStr name),
                    (''description'', JStr description),
                    (''parameters'',
                       JObj [(''type'', JStr ''object''),
                             (''properties'', JObj properties),
                             (''required'', JList (map JStr required))])])]"

definition get_available_tools :: "config \<Rightarrow> json list" where
  "get_available_tools cfg =
     (if enable_file_operations cfg then
        [tool ''read_file'' ''Read the contents of a file within your codebase''
           [(''file_path'', property ''string'' ''Path to the file to read'' [])]
           [''file_path''],
         tool ''list_directory''
           ''Read the structure of a directory without reading file contents''
           [(''directory_path'', property ''string'' ''Path to the directory to list'' []),
            (''recursive'', property ''boolean'' ''Whether to list recursively''
               [(''default'', JBool False)])]
           [''directory_path''],
         tool ''delete_file'' ''Delete a file from the filesystem''
           [(''file_path'', property ''string'' ''Path to the file to delete'' [])]
           [''file_path'']]
      else [])
     @ (if enable_terminal cfg then
          [tool ''terminal_command'' ''Execute terminal commands and monitor output''
             [(''command'', property ''string'' ''Command to execute in terminal'' []),
              (''working_directory'', property ''string''
                 ''Working directory for command execution'' [(''default'', JStr ''.'')])]
             [''command'']]
        else [])
     @ (if enable_edit_operations cfg then
          [tool ''edit_file'' ''Edit and apply changes to files''
             [(''file_path'', property ''string'' ''Path to the file to edit'' []),
              (''content'', property ''string'' ''New content for the file'' []),
              (''start_line'', property ''integer'' ''Starting line number for partial edit'' []),
              (''end_line'', property ''integer'' ''Ending line number for partial edit'' [])]
             [''file_path'', ''content''],
           tool ''create_file'' ''Create a new file with specified content''
             [(''file_path'', property ''string''
                 ''Path where the new file should be created'' []),
              (''content'', property ''string'' ''Content for the new file'' [])]
             [''file_path'', ''content'']]
        else [])
     @ [tool ''search_files'' ''Find files by name using fuzzy matching''
          [(''pattern'', property ''string'' ''Search pattern for file names'' []),
           (''directory'', property ''string'' ''Directory to search in''
              [(''default'', JStr ''.'')])]
          [''pattern''],
        tool ''grep_search'' ''Search for exact keywords or patterns within files''
          [(''pattern'', property ''string'' ''Pattern to search for'' []),
           (''directory'', property ''string'' ''Directory to search in''
              [(''default'', JStr ''.'')]),
           (''file_pattern'', property ''string'' ''File pattern to limit search''
              [(''default'', JStr ''*'')])]
          [''pattern''],
        tool ''codebase_search'' ''Perform semantic searches within indexed codebase''
          [(''query'', property ''string'' ''Semantic search query'' []),
           (''file_types'',
              JObj [(''type'', JStr ''array''),
                    (''items'', JObj [(''type'', JStr ''string'')]),
                    (''description'', JStr ''File types to include in search'')])]
          [''query'']]"

section \<open>The proxy: dispatch\<close>

text \<open>
  \<open>execute_tool_call\<close> reads each argument with \<open>arguments.get\<close> and hands it to the
  handler. The handlers are modelled on arguments of the types the catalogue declares
  (a line number may also be absent or \<open>null\<close>, and so may the list of file types). For
  a value of another type the Python handler raises somewhere inside a \<open>try\<close> block,
  possibly after it has made a directory, a backup or a file; what it returns then and
  what it leaves behind is the parameter \<open>ill_typed\<close>.
\<close>

fun type_name :: "json \<Rightarrow> string" where
  "type_name JNull = ''NoneType''"
| "type_name (JBool b) = ''bool''"
| "type_name (JInt i) = ''int''"
| "type_name (JStr s) = ''str''"
| "type_name (JList xs) = ''list''"
| "type_name (JObj kvs) = ''dict''"

fun as_str :: "json \<Rightarrow> string option" where
  "as_str (JStr s) = Some s"
| "as_str v = None"

fun as_bool :: "json \<Rightarrow> bool option" where
  "as_bool (JBool b) = Some b"
| "as_bool v = None"

fun as_line :: "json \<Rightarrow> int option option" where
  "as_line JNull = Some None"
| "as_line (JInt i) = Some (Some i)"
| "as_line v = None"

fun as_file_types :: "json \<Rightarrow> string list option option" where
  "as_file_types JNull = Some None"
| "as_file_types (JList xs) =
     (if list_all (\<lambda>x. as_str x \<noteq> None) xs then Some (Some (map (\<lambda>x. str_opt (as_str x)) xs))
      else None)"
| "as_file_types v = None"

definition execute_tool_call ::
  "externals \<Rightarrow> config \<Rightarrow> string option \<Rightarrow> json \<Rightarrow> world \<Rightarrow> result \<times> world" where
  "execute_tool_call ext cfg tool_name arguments w =
     (if tool_name \<notin> Some ` {''read_file'', ''list_directory'', ''delete_file'', ''create_file'',
            ''edit_file'', ''terminal_command'', ''search_files'', ''grep_search'',
            ''codebase_search''}
      then (failure (''Unknown tool: '' @ str_opt tool_name), w)
      else
        (case arguments of
           JObj args \<Rightarrow>
             if tool_name = Some ''read_file'' then
               (case as_str (get args ''file_path'' JNull) of
                  Some file_path \<Rightarrow> (read_file ext cfg w file_path, w)
                | None \<Rightarrow> ill_typed ext (str_opt tool_name) arguments w)
             else if tool_name = Some ''list_directory'' then
               (case (as_str (get args ''directory_path'' JNull),
                      as_bool (get args ''recursive'' (JBool False))) of
                  (Some directory_path, Some recursive) \<Rightarrow>
                    (list_directory ext cfg w directory_path recursive, w)
                | _ \<Rightarrow> ill_typed ext (str_opt tool_name) arguments w)
             else if tool_name = Some ''delete_file'' then
               (case as_str (get args ''file_path'' JNull) of
                  Some file_path \<Rightarrow> delete_file cfg w file_path
                | None \<Rightarrow> ill_typed ext (str_opt tool_name) arguments w)
             else if tool_name = Some ''create_file'' then
               (case (as_str (get args ''file_path'' JNull), as_str (get args ''content'' JNull)) of
                  (Some file_path, Some content) \<Rightarrow> create_file cfg w file_path content
                | _ \<Rightarrow> ill_typed ext (str_opt tool_name) arguments w)
             else if tool_name = Some ''edit_file'' then
               (case (as_str (get args ''file_path'' JNull), as_str (get args ''content'' JNull),
                      as_line (get args ''start_line'' JNull),
                      as_line (get args ''end_line'' JNull)) of
                  (Some file_path, Some content, Some start_line, Some end_line) \<Rightarrow>
                    edit_file cfg w file_path content start_line end_line
                | _ \<Rightarrow> ill_typed ext (str_opt tool_name) arguments w)
             else if tool_name = Some ''terminal_command'' then
               (case (as_str (get args ''command'' JNull),
                      as_str (get args ''working_directory'' (JStr ''.''))) of
                  (Some command, Some working_directory) \<Rightarrow>
                    execute_command cfg w command working_directory
                | _ \<Rightarrow> ill_typed ext (str_opt tool_name) arguments w)
             else if tool_name = Some ''search_files'' then
               (case (as_str (get args ''pattern'' JNull),
                      as_str (get args ''directory'' (JStr ''.''))) of
                  (Some pattern, Some directory) \<Rightarrow> (search_files ext w pattern directory, w)
                | _ \<Rightarrow> ill_typed ext (str_opt tool_name) arguments w)
             else if tool_name = Some ''grep_search'' then
               (case (as_str (get args ''pattern'' JNull),
                      as_str (get args ''directory'' (JStr ''.'')),
                      as_str (get args ''file_pattern'' (JStr ''*''))) of
                  (Some pattern, Some directory, Some file_pattern) \<Rightarrow>
                    (grep_search ext cfg w pattern directory file_pattern, w)
                | _ \<Rightarrow> ill_typed ext (str_opt tool_name) arguments w)
             else
               (case (as_str (get args ''query'' JNull),
                      as_file_types (get args ''file_types'' (JList []))) of
                  (Some query, Some file_types) \<Rightarrow>
                    (codebase_search ext cfg w query file_types, w)
                | _ \<Rightarrow> ill_typed ext (str_opt tool_name) arguments w)
         | _ \<Rightarrow>
             (failure (''Tool execution failed: '' @ repr (type_name arguments)
                         @ '' object has no attribute '' @ repr ''get''), w)))"

section \<open>The proxy: one chat completion\<close>

text \<open>
  The argument payload of a tool call is a text. The model keeps, with the text, what
  \<open>json.loads\<close> makes of it: the value, or the message of the error it raises.
\<close>

datatype payload = Parses string json | Fails string string

fun json_loads :: "payload \<Rightarrow> exn + json" where
  "json_loads (Parses text v) = Inr v"
| "json_loads (Fails text message) = Inl (Exn message)"

record tool_call =
  call_id :: "string option"
  function_name :: "string option"
  function_arguments :: "payload option"

record reply_message =
  reply_content :: json
  tool_calls :: "tool_call list option"

text \<open>The message of role \<open>tool\<close> made for a call: the keys \<open>tool_call_id\<close>,
  \<open>role\<close>, \<open>name\<close> and \<open>content\<close>.\<close>

record tool_message =
  msg_tool_call_id :: "string option"
  msg_role :: string
  msg_name :: "string option"
  msg_content :: string

datatype message = Given json | Assistant reply_message | Tool tool_message

record request =
  messages :: "message list"
  tools :: "json list option"

text \<open>What \<open>requests.post\<close> gives: the status, the body as sent, and what
  \<open>response.json()\<close> makes of it, read as far as the proxy reads it: the message of
  each choice.\<close>

record http_reply =
  status_code :: int
  body :: string
  body_json :: "exn + reply_message option list"

datatype http_response = Response string int | Proxy_error string

text \<open>The loop over the tool calls of a reply. An exception leaves the loop and the
  results gathered so far are lost; what the calls already run have done stays.\<close>

fun run_tool_calls ::
  "externals \<Rightarrow> config \<Rightarrow> tool_call list \<Rightarrow> world \<Rightarrow> (exn + tool_message list) \<times> world" where
  "run_tool_calls ext cfg [] w = (Inr [], w)"
| "run_tool_calls ext cfg (tool_call # rest) w =
     (let tool_name = function_name tool_call
      in case json_loads (case function_arguments tool_call of
                            None \<Rightarrow> Parses ''{}'' (JObj [])
                          | Some p \<Rightarrow> p) of
           Inl e \<Rightarrow> (Inl e, w)
         | Inr arguments \<Rightarrow>
             let (result, w1) = execute_tool_call ext cfg tool_name arguments w;
                 tool_result = \<lparr>msg_tool_call_id = call_id tool_call, msg_role = ''tool'',
                                msg_name = tool_name, msg_content = json_dumps (JObj result)\<rparr>
             in case run_tool_calls ext cfg rest w1 of
                  (Inl e, w2) \<Rightarrow> (Inl e, w2)
                | (Inr tool_results, w2) \<Rightarrow> (Inr (tool_result # tool_results), w2))"

definition proxy_error :: "exn \<Rightarrow> http_response" where
  "proxy_error e = Proxy_error (''Proxy error: '' @ str_exn e)"

text \<open>\<open>handle_chat_completion\<close>. The backend is a function from the request sent to
  what \<open>requests.post\<close> returns or raises.\<close>

definition handle_chat_completion ::
  "externals \<Rightarrow> config \<Rightarrow> (request \<Rightarrow> exn + http_reply) \<Rightarrow> request \<Rightarrow> world
     \<Rightarrow> http_response \<times> world" where
  "handle_chat_completion ext cfg backend data w =
     (let data1 = (if tools data = None \<or> tools data = Some []
                   then data\<lparr>tools := Some (get_available_tools cfg)\<rparr> else data)
      in case backend data1 of
           Inl e \<Rightarrow> (proxy_error e, w)
         | Inr response \<Rightarrow>
             let verbatim = (Response (body response) (status_code response), w)
             in if status_code response = 200 then
                  (case body_json response of
                     Inl e \<Rightarrow> (proxy_error e, w)
                   | Inr (Some message # choices) \<Rightarrow>
                       (case tool_calls message of
                          Some (tool_call # rest) \<Rightarrow>
                            (case run_tool_calls ext cfg (tool_call # rest) w of
                               (Inl e, w') \<Rightarrow> (proxy_error e, w')
                             | (Inr tool_results, w') \<Rightarrow>
                                 let data2 = data1\<lparr>messages := messages data1 @ [Assistant message]
                                                       @ map Tool tool_results\<rparr>;
                                     follow_up_data = data2\<lparr>tools := None\<rparr>
                                 in case backend follow_up_data of
                                      Inl e \<Rightarrow> (proxy_error e, w')
                                    | Inr final_response \<Rightarrow>
                                        (Response (body final_response)
                                           (status_code final_response), w'))
                        | _ \<Rightarrow> verbatim)
                   | Inr _ \<Rightarrow> verbatim)
                else verbatim)"

section \<open>Predicates used in the properties\<close>

text \<open>A path lies in a directory when it is the directory or continues it after a
  slash: the reading by components, against which the check's reading by characters
  is compared.\<close>

definition inside_directory :: "string \<Rightarrow> string \<Rightarrow> bool" where
  "inside_directory dir path =
     (path = dir \<or> startswith path (if endswith dir ''/'' then dir else dir @ ''/''))"


section \<open>Sample values\<close>

text \<open>A world, a configuration (the defaults of \<open>config.get\<close>) and parameters on
  which the statements below are run.\<close>

definition demo_tree :: tree where
  "demo_tree =
     [[] \<mapsto> Dir,
      [''etc''] \<mapsto> Dir,
      [''etc'', ''passwd''] \<mapsto> File ''root:x:0:0'',
      [''home''] \<mapsto> Dir,
      [''home'', ''u''] \<mapsto> Dir,
      [''home'', ''u'', ''notes.txt''] \<mapsto> File ''1\<newline>2\<newline>3\<newline>4\<newline>5\<newline>'']"

text \<open>A command that ends at once and writes nothing, and one that sleeps for a
  minute.\<close>

definition quick_child :: child where
  "quick_child =
     \<lparr>finishes_after = Some 0, stdout_by = (\<lambda>t. []), stderr_by = (\<lambda>t. []),
      exit_status = 0, effect_by = (\<lambda>t tree. tree), interrupted_at = None\<rparr>"

definition sleeping_child :: child where
  "sleeping_child = quick_child\<lparr>finishes_after := Some 60\<rparr>"

definition demo_world :: world where
  "demo_world =
     \<lparr>fs = demo_tree, cwd = [''home'', ''u''], clock = ''20240101_000000'',
      spawn = (\<lambda>command dir. if command = ''sleep 60'' then sleeping_child else quick_child)\<rparr>"

definition demo_config :: config where
  "demo_config =
     \<lparr>max_file_size_mb = 10, allowed_directories = [], blocked_directories = [],
      max_output_lines = 1000, allowed_commands = [], blocked_commands = [],
      enable_file_operations = True, enable_terminal = True, enable_edit_operations = True\<rparr>"


text \<open>Sample parameters: the type of a file goes by its suffix, and the search
  handlers find nothing.\<close>

definition demo_externals :: externals where
  "demo_externals =
     \<lparr>guess_type = (\<lambda>path. if endswith path ''.txt'' then Some ''text/plain''
                            else if endswith path ''.png'' then Some ''image/png'' else None),
      grep_scan = (\<lambda>w cap pattern directory file_pattern. Inr []),
      search_files = (\<lambda>w pattern directory.
        [(''success'', JBool True), (''pattern'', JStr pattern), (''directory'', JStr directory),
         (''matches'', JList []), (''total_found'', JInt 0), (''truncated'', JBool False)]),
      list_directory = (\<lambda>cfg w directory_path recursive.
        failure (''Directory not found: '' @ directory_path)),
      ill_typed = (\<lambda>tool_name arguments w.
        (failure (''Tool execution failed: bad argument for '' @ tool_name), w))\<rparr>"

text \<open>Sample tool calls: two that create a file, one that reads a file, and one whose
  argument payload is not JSON. A payload that parses is written as the text
  \<open>json.dumps\<close> gives for its value.\<close>

definition payload_of :: "json \<Rightarrow> payload" where
  "payload_of v = Parses (json_dumps v) v"

definition bad_payload :: payload where
  "bad_payload =
     Fails ''{bad''
       ''Expecting property name enclosed in double quotes: line 1 column 2 (char 1)''"

definition call_create :: "string \<Rightarrow> string \<Rightarrow> string \<Rightarrow> tool_call" where
  "call_create ident path text =
     \<lparr>call_id = Some ident, function_name = Some ''create_file'',
      function_arguments =
        Some (payload_of (JObj [(''file_path'', JStr path), (''content'', JStr text)]))\<rparr>"

definition call_read :: "string \<Rightarrow> string \<Rightarrow> tool_call" where
  "call_read ident path =
     \<lparr>call_id = Some ident, function_name = Some ''read_file'',
      function_arguments = Some (payload_of (JObj [(''file_path'', JStr path)]))\<rparr>"

definition call_bad :: "string \<Rightarrow> tool_call" where
  "call_bad ident =
     \<lparr>call_id = Some ident, function_name = Some ''read_file'',
      function_arguments = Some bad_payload\<rparr>"

text \<open>A sample request, and a backend that answers a request carrying a tool catalogue
  with the given tool calls and any other request with a final text.\<close>

definition demo_request :: request where
  "demo_request =
     \<lparr>messages = [Given (JObj [(''role'', JStr ''user''), (''content'', JStr ''hello'')])],
      tools = None\<rparr>"

definition demo_reply :: "tool_call list \<Rightarrow> reply_message" where
  "demo_reply calls = \<lparr>reply_content = JNull, tool_calls = Some calls\<rparr>"

definition demo_backend :: "tool_call list \<Rightarrow> request \<Rightarrow> exn + http_reply" where
  "demo_backend calls data =
     (if tools data \<noteq> None
      then Inr \<lparr>status_code = 200, body = ''(a reply with tool calls)'',
                body_json = Inr [Some (demo_reply calls)]\<rparr>
      else Inr \<lparr>status_code = 200, body = ''(a final reply)'',
                body_json = Inr [Some \<lparr>reply_content = JStr ''done'', tool_calls = None\<rparr>]\<rparr>)"

section \<open>Properties: the permit checks\<close>

lemma startswith_iff: "startswith s p \<longleftrightarrow> (\<exists>r. s = p @ r)"
  by (induction s p rule: startswith.induct) auto

lemmas path_eval = abspath_def normpath_def isabs_def path_join_def getcwd_def norm_step_def
  endswith_def Let_def


text \<open>
  Claim C5. A path whose absolute form starts with the absolute form of a blocked
  directory is denied, whatever the allow-list holds, and the reason names a blocked
  directory that matches (the first one of the configured list).
\<close>

theorem blocked_directory_denies:
  assumes "blocked_dir \<in> set (blocked_directories cfg)"
    and "startswith (abspath w file_path) (abspath w blocked_dir)"
  shows "\<exists>b \<in> set (blocked_directories cfg).
           startswith (abspath w file_path) (abspath w b)
           \<and> is_path_allowed (cfg\<lparr>allowed_directories := allowed\<rparr>) w file_path
               = (False, ''Access denied: '' @ b @ '' is blocked'')"
proof -
  let ?hit = "\<lambda>b. startswith (abspath w file_path) (abspath w b)"
  from assms have "find ?hit (blocked_directories cfg) \<noteq> None"
    by (auto simp: find_None_iff)
  then obtain b where b: "find ?hit (blocked_directories cfg) = Some b"
    by blast
  then have "b \<in> set (blocked_directories cfg)" and "?hit b"
    by (auto simp: find_Some_iff)
  moreover from b
  have "is_path_allowed (cfg\<lparr>allowed_directories := allowed\<rparr>) w file_path
          = (False, ''Access denied: '' @ b @ '' is blocked'')"
    by (simp add: is_path_allowed_def)
  ultimately show ?thesis by blast
qed

theorem blocked_directory_denies_witness:
  "''/etc'' \<in> set (blocked_directories (demo_config\<lparr>blocked_directories := [''/var'', ''/etc'']\<rparr>))
   \<and> startswith (abspath demo_world ''/etc/ssh/../passwd'') (abspath demo_world ''/etc'')
   \<and> is_path_allowed
        (demo_config\<lparr>blocked_directories := [''/var'', ''/etc''], allowed_directories := [''/etc'']\<rparr>)
        demo_world ''/etc/ssh/../passwd''
       = (False, ''Access denied: /etc is blocked'')"
proof -
  have h1: "''/etc'' \<in> set (blocked_directories (demo_config\<lparr>blocked_directories := [''/var'', ''/etc'']\<rparr>))"
    by simp
  have h2: "startswith (abspath demo_world ''/etc/ssh/../passwd'') (abspath demo_world ''/etc'')"
    by (simp add: path_eval)
  have h3: "\<not> startswith (abspath demo_world ''/etc/ssh/../passwd'') (abspath demo_world ''/var'')"
    by (simp add: path_eval)
  from blocked_directory_denies [OF h1 h2, of "[''/etc'']"] h3
  have "is_path_allowed
        (demo_config\<lparr>blocked_directories := [''/var'', ''/etc''], allowed_directories := [''/etc'']\<rparr>)
        demo_world ''/etc/ssh/../passwd''
       = (False, ''Access denied: /etc is blocked'')"
    by auto
  with h1 h2 show ?thesis by blast
qed



text \<open>
  Claim C10. The check compares the absolute paths as strings. A path whose absolute
  form starts with that of a blocked directory is denied, also when it does not lie in
  that directory: with \<open>/tmp\<close> blocked, \<open>/tmp_other/x\<close> is denied. In the same way a
  path that no blocked directory matches passes as soon as its absolute form starts with
  that of an allowed directory: with \<open>/srv/app\<close> allowed, \<open>/srv/app_secret/key\<close>
  passes.
\<close>

theorem path_check_compares_strings:
  "(b \<in> set (blocked_directories cfg) \<and> startswith (abspath w p) (abspath w b)
      \<longrightarrow> fst (is_path_allowed cfg w p) = False)
   \<and> (find (\<lambda>b. startswith (abspath w p) (abspath w b)) (blocked_directories cfg) = None
        \<and> a \<in> set (allowed_directories cfg) \<and> startswith (abspath w p) (abspath w a)
      \<longrightarrow> is_path_allowed cfg w p = (True, ''OK''))
   \<and> \<not> inside_directory (abspath demo_world ''/tmp'') (abspath demo_world ''/tmp_other/x'')
   \<and> is_path_allowed (demo_config\<lparr>blocked_directories := [''/tmp'']\<rparr>) demo_world ''/tmp_other/x''
       = (False, ''Access denied: /tmp is blocked'')
   \<and> \<not> inside_directory (abspath demo_world ''/srv/app'') (abspath demo_world ''/srv/app_secret/key'')
   \<and> is_path_allowed (demo_config\<lparr>allowed_directories := [''/srv/app'']\<rparr>) demo_world
         ''/srv/app_secret/key'' = (True, ''OK'')"
proof -
  have blocked: "fst (is_path_allowed cfg w p) = False"
    if "b \<in> set (blocked_directories cfg)" "startswith (abspath w p) (abspath w b)"
  proof -
    from that have "find (\<lambda>b. startswith (abspath w p) (abspath w b)) (blocked_directories cfg) \<noteq> None"
      by (auto simp: find_None_iff)
    then show ?thesis
      by (auto simp: is_path_allowed_def)
  qed
  have allowed: "is_path_allowed cfg w p = (True, ''OK'')"
    if "find (\<lambda>b. startswith (abspath w p) (abspath w b)) (blocked_directories cfg) = None"
      "a \<in> set (allowed_directories cfg)" "startswith (abspath w p) (abspath w a)"
  proof -
    from that(2,3)
    have "find (\<lambda>a. startswith (abspath w p) (abspath w a)) (allowed_directories cfg) \<noteq> None"
      by (auto simp: find_None_iff)
    with that(1) show ?thesis
      by (simp add: is_path_allowed_def)
  qed
  have e1: "\<not> inside_directory (abspath demo_world ''/tmp'') (abspath demo_world ''/tmp_other/x'')"
    by (simp add: inside_directory_def path_eval)
  have e2: "is_path_allowed (demo_config\<lparr>blocked_directories := [''/tmp'']\<rparr>) demo_world ''/tmp_other/x''
       = (False, ''Access denied: /tmp is blocked'')"
    by (simp add: is_path_allowed_def demo_config_def path_eval)
  have e3: "\<not> inside_directory (abspath demo_world ''/srv/app'') (abspath demo_world ''/srv/app_secret/key'')"
    by (simp add: inside_directory_def path_eval)
  have e4: "is_path_allowed (demo_config\<lparr>allowed_directories := [''/srv/app'']\<rparr>) demo_world
         ''/srv/app_secret/key'' = (True, ''OK'')"
    by (simp add: is_path_allowed_def demo_config_def path_eval)
  from blocked allowed e1 e2 e3 e4 show ?thesis by blast
qed

theorem path_check_compares_strings_witness:
  "''/tmp'' \<in> set (blocked_directories (demo_config\<lparr>blocked_directories := [''/tmp'']\<rparr>))
   \<and> startswith (abspath demo_world ''/tmp_other/x'') (abspath demo_world ''/tmp'')
   \<and> fst (is_path_allowed (demo_config\<lparr>blocked_directories := [''/tmp'']\<rparr>) demo_world ''/tmp_other/x'') = False
   \<and> find (\<lambda>b. startswith (abspath demo_world ''/srv/app_secret/key'') (abspath demo_world b))
        (blocked_directories (demo_config\<lparr>allowed_directories := [''/srv/app'']\<rparr>)) = None
   \<and> ''/srv/app'' \<in> set (allowed_directories (demo_config\<lparr>allowed_directories := [''/srv/app'']\<rparr>))
   \<and> startswith (abspath demo_world ''/srv/app_secret/key'') (abspath demo_world ''/srv/app'')
   \<and> is_path_allowed (demo_config\<lparr>allowed_directories := [''/srv/app'']\<rparr>) demo_world
        ''/srv/app_secret/key'' = (True, ''OK'')"
proof -
  have h1: "''/tmp'' \<in> set (blocked_directories (demo_config\<lparr>blocked_directories := [''/tmp'']\<rparr>))"
    by simp
  have h2: "startswith (abspath demo_world ''/tmp_other/x'') (abspath demo_world ''/tmp'')"
    by (simp add: path_eval)
  have h3: "find (\<lambda>b. startswith (abspath demo_world ''/srv/app_secret/key'') (abspath demo_world b))
        (blocked_directories (demo_config\<lparr>allowed_directories := [''/srv/app'']\<rparr>)) = None"
    by (simp add: demo_config_def)
  have h4: "''/srv/app'' \<in> set (allowed_directories (demo_config\<lparr>allowed_directories := [''/srv/app'']\<rparr>))"
    by simp
  have h5: "startswith (abspath demo_world ''/srv/app_secret/key'') (abspath demo_world ''/srv/app'')"
    by (simp add: path_eval)
  note t = path_check_compares_strings
    [of "''/tmp''" "demo_config\<lparr>blocked_directories := [''/tmp'']\<rparr>" demo_world "''/tmp_other/x''"]
  note u = path_check_compares_strings
    [of _ "demo_config\<lparr>allowed_directories := [''/srv/app'']\<rparr>" demo_world
        "''/srv/app_secret/key''" "''/srv/app''"]
  from t h1 h2
  have c1: "fst (is_path_allowed (demo_config\<lparr>blocked_directories := [''/tmp'']\<rparr>) demo_world ''/tmp_other/x'') = False"
    by blast
  from u h3 h4 h5
  have c2: "is_path_allowed (demo_config\<lparr>allowed_directories := [''/srv/app'']\<rparr>) demo_world
        ''/srv/app_secret/key'' = (True, ''OK'')"
    by blast
  from h1 h2 h3 h4 h5 c1 c2 show ?thesis by blast
qed


text \<open>
  Claim C6. The command is lower-cased and stripped of the white space at its two ends
  before the block-list is searched. As the claim is written it fails: with \<open>rm\<close>
  followed by a space on the block-list, the command \<open>rm\<close> followed by a space holds
  the blocked text and is let through. What holds: a command whose lower-cased, stripped
  form holds the lower-cased form of a blocked entry is denied, whatever the allow-list
  holds, and the reason names a blocked entry that matches.
\<close>

theorem blocked_command_stripped_counterexample:
  "contains (lower ''rm '') (lower ''rm '')
   \<and> is_command_allowed
        (demo_config\<lparr>blocked_commands := [''rm ''], allowed_commands := [''rm'']\<rparr>) ''rm ''
       = Inr (True, ''OK'')"
  by (simp add: is_command_allowed_def demo_config_def lower_def lower_char_def strip_def
      is_space_def shlex_split_def shlex_space_def shlex_quote_def)

theorem blocked_command_denies:
  assumes "blocked \<in> set (blocked_commands cfg)"
    and "contains (lower blocked) (strip (lower command))"
  shows "\<exists>b \<in> set (blocked_commands cfg).
           contains (lower b) (strip (lower command))
           \<and> is_command_allowed (cfg\<lparr>allowed_commands := allowed\<rparr>) command
               = Inr (False, ''Command blocked: contains '' @ [CHR 0x27] @ b @ [CHR 0x27])"
proof -
  let ?hit = "\<lambda>b. contains (lower b) (strip (lower command))"
  from assms have "find ?hit (blocked_commands cfg) \<noteq> None"
    by (auto simp: find_None_iff)
  then obtain b where b: "find ?hit (blocked_commands cfg) = Some b"
    by blast
  then have "b \<in> set (blocked_commands cfg)" and "?hit b"
    by (auto simp: find_Some_iff)
  moreover from b
  have "is_command_allowed (cfg\<lparr>allowed_commands := allowed\<rparr>) command
          = Inr (False, ''Command blocked: contains '' @ [CHR 0x27] @ b @ [CHR 0x27])"
    by (simp add: is_command_allowed_def)
  ultimately show ?thesis by blast
qed

theorem blocked_command_denies_witness:
  "''sudo'' \<in> set (blocked_commands (demo_config\<lparr>blocked_commands := [''sudo'']\<rparr>))
   \<and> contains (lower ''sudo'') (strip (lower ''ls && SUDO reboot ''))
   \<and> shlex_split (strip (lower ''ls && SUDO reboot '')) = Inr [''ls'', ''&&'', ''sudo'', ''reboot'']
   \<and> is_command_allowed
        (demo_config\<lparr>blocked_commands := [''sudo''], allowed_commands := [''ls'']\<rparr>)
        ''ls && SUDO reboot ''
       = Inr (False, ''Command blocked: contains '' @ [CHR 0x27] @ ''sudo'' @ [CHR 0x27])"
proof -
  have h1: "''sudo'' \<in> set (blocked_commands (demo_config\<lparr>blocked_commands := [''sudo'']\<rparr>))"
    by simp
  have h2: "contains (lower ''sudo'') (strip (lower ''ls && SUDO reboot ''))"
    by (simp add: lower_def lower_char_def strip_def is_space_def)
  have h3: "shlex_split (strip (lower ''ls && SUDO reboot '')) = Inr [''ls'', ''&&'', ''sudo'', ''reboot'']"
    by (simp add: lower_def lower_char_def strip_def is_space_def shlex_split_def
        shlex_space_def shlex_quote_def)
  from blocked_command_denies [OF h1 h2, of "[''ls'']"]
  have "is_command_allowed
        (demo_config\<lparr>blocked_commands := [''sudo''], allowed_commands := [''ls'']\<rparr>)
        ''ls && SUDO reboot ''
       = Inr (False, ''Command blocked: contains '' @ [CHR 0x27] @ ''sudo'' @ [CHR 0x27])"
    by simp
  with h1 h2 h3 show ?thesis by blast
qed

section \<open>Properties: paths and files\<close>

lemma split_on_not_Nil [simp]: "split_on sep s \<noteq> []"
  by (induction s) (auto split: list.splits)

lemma split_on_append_sep:
  "split_on sep (a @ sep # b) = split_on sep a @ split_on sep b"
  by (induction a) (auto split: list.splits)

lemma split_on_no_sep: "sep \<notin> set b \<Longrightarrow> split_on sep b = [b]"
  by (induction b) auto

lemma split_on_replicate: "split_on sep (replicate j sep) = replicate (Suc j) []"
  by (induction j) auto

lemma split_on_append_replicate:
  "split_on sep (q @ replicate j sep) = split_on sep q @ replicate j []"
proof (cases j)
  case 0
  then show ?thesis by simp
next
  case (Suc i)
  have "split_on sep (q @ sep # replicate i sep) = split_on sep q @ split_on sep (replicate i sep)"
    by (rule split_on_append_sep)
  then show ?thesis
    using Suc by (simp add: split_on_replicate replicate_append_same)
qed

lemma walk_append:
  "walk t cur (xs @ ys) = (case walk t cur xs of None \<Rightarrow> None | Some k \<Rightarrow> walk t k ys)"
  by (induction xs arbitrary: cur) auto

lemma walk_empties:
  "walk t k (replicate j []) = (if j = 0 \<or> t k = Some Dir then Some k else None)"
  by (induction j) auto

lemma walk_last_dir:
  assumes "walk t cur (xs @ [c]) = Some k"
  shows "\<exists>k'. walk t cur xs = Some k' \<and> t k' = Some Dir"
  using assms by (auto simp: walk_append split: option.splits if_splits)

lemma walk_prefix_dir:
  assumes "walk t cur (split_on CHR ''/'' (q @ CHR ''/'' # r)) = Some k"
  shows "\<exists>k'. walk t cur (split_on CHR ''/'' q) = Some k' \<and> t k' = Some Dir"
proof -
  obtain c cs where r: "split_on CHR ''/'' r = c # cs"
    by (cases "split_on CHR ''/'' r") auto
  from assms have "walk t cur (split_on CHR ''/'' q @ c # cs) = Some k"
    by (simp add: split_on_append_sep r)
  then show ?thesis
    by (auto simp: walk_append split: option.splits if_splits)
qed

lemma rev_take_drop:
  "xs = rev (dropWhile P (rev xs)) @ rev (takeWhile P (rev xs))"
proof -
  have "rev (takeWhile P (rev xs) @ dropWhile P (rev xs)) = xs"
    by (simp only: takeWhile_dropWhile_id rev_rev_ident)
  then show ?thesis
    by (simp only: rev_append)
qed

lemma basename_no_slash: "CHR ''/'' \<notin> set (basename p)"
  by (auto simp: basename_def dest: set_takeWhileD)

lemma dirname_cases:
  "dirname p = []
   \<or> (\<exists>m. 0 < m \<and> dirname p = replicate m CHR ''/'' \<and> startswith p ''/'')
   \<or> (dirname p \<noteq> [] \<and> (\<exists>r. p = dirname p @ CHR ''/'' # r))"
proof -
  define Q where "Q = (\<lambda>c. c \<noteq> CHR ''/'')"
  define P where "P = (\<lambda>c. c = CHR ''/'')"
  define head where "head = rev (dropWhile Q (rev p))"
  define base where "base = rev (takeWhile Q (rev p))"
  define d where "d = rev (dropWhile P (rev head))"
  define s where "s = rev (takeWhile P (rev head))"
  have p: "p = head @ base"
    unfolding head_def base_def by (rule rev_take_drop)
  have h: "head = d @ s"
    unfolding d_def s_def by (rule rev_take_drop)
  have dn: "dirname p = (if head \<noteq> [] \<and> head \<noteq> replicate (length head) CHR ''/'' then d else head)"
    by (simp add: dirname_def head_def d_def Q_def P_def Let_def)
  have s_all: "s = replicate (length s) CHR ''/''"
  proof -
    have "\<forall>c \<in> set s. c = CHR ''/''"
      by (auto simp: s_def P_def dest: set_takeWhileD)
    then show ?thesis
      by (simp add: replicate_length_same)
  qed
  show ?thesis
  proof (cases "head = []")
    case True
    with dn show ?thesis by simp
  next
    case False
    then have ne: "dropWhile Q (rev p) \<noteq> []"
      by (simp add: head_def)
    then have "\<not> Q (hd (dropWhile Q (rev p)))"
      by (rule hd_dropWhile)
    then have "hd (rev head) = CHR ''/''"
      by (simp add: head_def Q_def)
    with False obtain xs where rh: "rev head = CHR ''/'' # xs"
      by (cases "rev head") auto
    then have s_ne: "s \<noteq> []"
      by (simp add: s_def P_def)
    have hd_p: "startswith p ''/''" if "head = replicate (length head) CHR ''/''"
    proof -
      from False that obtain n where "head = CHR ''/'' # replicate n CHR ''/''"
        by (cases "length head") (auto simp: replicate_Suc [symmetric] simp del: replicate_Suc)
      with p show ?thesis by (cases p) auto
    qed
    show ?thesis
    proof (cases "head = replicate (length head) CHR ''/''")
      case True
      with dn False hd_p show ?thesis
        by (metis length_greater_0_conv)
    next
      case all: False
      with dn False have dd: "dirname p = d" by simp
      have d_ne: "d \<noteq> []"
      proof
        assume "d = []"
        with h s_all have "head = replicate (length head) CHR ''/''" by simp
        with all show False by simp
      qed
      from s_ne s_all obtain n where "s = CHR ''/'' # replicate n CHR ''/''"
        by (cases "length s") (auto simp: replicate_Suc [symmetric] simp del: replicate_Suc)
      with p h have "p = d @ CHR ''/'' # (replicate n CHR ''/'' @ base)" by simp
      with dd d_ne show ?thesis by blast
    qed
  qed
qed

lemma startswith_append_slash:
  "d \<noteq> [] \<Longrightarrow> startswith (d @ r) ''/'' = startswith d ''/''"
  by (cases d) auto

lemma walk_first_dir:
  "walk t cur (c # cs) = Some k \<Longrightarrow> t cur = Some Dir"
  by (auto split: if_splits)

lemma exists_dirname:
  assumes "exists w p"
  shows "dirname p = [] \<or> isdir w (dirname p)"
proof -
  from assms obtain k where k: "resolve w p = Some k"
    by (auto simp: exists_def lookup_def split: option.splits)
  then have pne: "p \<noteq> []"
    by (auto simp: resolve_def)
  let ?start = "if isabs p then [] else cwd w"
  from k pne have wk: "walk (fs w) ?start (split_on CHR ''/'' p) = Some k"
    by (simp add: resolve_def)
  consider "dirname p = []"
    | m where "0 < m" "dirname p = replicate m CHR ''/''" "startswith p ''/''"
    | r where "dirname p \<noteq> []" "p = dirname p @ CHR ''/'' # r"
    using dirname_cases [of p] by blast
  then show ?thesis
  proof cases
    case 1
    then show ?thesis by simp
  next
    case 2
    obtain c cs where "split_on CHR ''/'' p = c # cs"
      by (cases "split_on CHR ''/'' p") auto
    with wk 2(3) have "walk (fs w) [] (c # cs) = Some k"
      by (simp add: isabs_def)
    then have root: "fs w [] = Some Dir"
      by (rule walk_first_dir)
    from 2(1) obtain n where m: "m = Suc n" by (cases m) auto
    have sw: "startswith (replicate (Suc n) CHR ''/'') ''/''"
      by simp
    have "walk (fs w) [] (split_on CHR ''/'' (replicate (Suc n) CHR ''/'')) = Some []"
      using root by (simp only: split_on_replicate walk_empties if_True simp_thms)
    with sw have "resolve w (replicate (Suc n) CHR ''/'') = Some []"
      by (simp add: resolve_def isabs_def del: replicate_Suc replicate.simps)
    with 2(2) m have "resolve w (dirname p) = Some []"
      by simp
    with root show ?thesis
      by (simp add: isdir_def lookup_def)
  next
    case 3
    from 3 have abs: "isabs (dirname p) = isabs p"
      by (metis isabs_def startswith_append_slash)
    from wk 3(2) have "walk (fs w) ?start (split_on CHR ''/'' (dirname p @ CHR ''/'' # r)) = Some k"
      by simp
    then obtain k' where "walk (fs w) ?start (split_on CHR ''/'' (dirname p)) = Some k'"
      and "fs w k' = Some Dir"
      using walk_prefix_dir by blast
    with 3(1) abs have "lookup w (dirname p) = Some Dir"
      by (simp add: lookup_def resolve_def)
    then show ?thesis by (simp add: isdir_def)
  qed
qed

text \<open>
  Claim C8. \<open>create_file\<close> runs the path permit check first, so for a path the check
  denies the failure reports the denial and not that the file exists: with \<open>/etc\<close>
  blocked, creating \<open>/etc/passwd\<close> fails with the reason of the check. What holds: at
  a path where a file (or a directory) exists, \<open>create_file\<close> returns a failure and
  leaves the file system as it was; the failure reports that the file already exists when
  the path passes the permit check, and the reason of the check otherwise.
\<close>

theorem create_file_existing:
  assumes "exists w file_path"
  shows "create_file cfg w file_path content =
           (failure (if fst (is_path_allowed cfg w file_path)
                     then ''File already exists: '' @ file_path
                     else snd (is_path_allowed cfg w file_path)), w)"
proof -
  from exists_dirname [OF assms]
  have "dirname file_path = [] \<or> exists w (dirname file_path)"
    by (auto simp: isdir_def exists_def)
  with assms show ?thesis
    by (auto simp: create_file_def Let_def split: prod.splits)
qed

lemmas fs_eval = exists_def isfile_def isdir_def lookup_def resolve_def isabs_def
  demo_world_def demo_tree_def

theorem create_file_existing_witness:
  "exists demo_world ''notes.txt''
   \<and> create_file demo_config demo_world ''notes.txt'' ''new text''
       = (failure ''File already exists: notes.txt'', demo_world)"
proof -
  have h: "exists demo_world ''notes.txt''"
    by (simp add: fs_eval)
  have a: "is_path_allowed demo_config demo_world ''notes.txt'' = (True, ''OK'')"
    by (simp add: is_path_allowed_def demo_config_def)
  from create_file_existing [OF h, of demo_config "''new text''"] a h show ?thesis
    by simp
qed

theorem create_file_denied_counterexample:
  "isfile demo_world ''/etc/passwd''
   \<and> create_file (demo_config\<lparr>blocked_directories := [''/etc'']\<rparr>) demo_world ''/etc/passwd'' ''x''
       = (failure ''Access denied: /etc is blocked'', demo_world)"
proof -
  have a: "is_path_allowed (demo_config\<lparr>blocked_directories := [''/etc'']\<rparr>) demo_world ''/etc/passwd''
             = (False, ''Access denied: /etc is blocked'')"
    by (simp add: is_path_allowed_def demo_config_def path_eval)
  have f: "isfile demo_world ''/etc/passwd''"
    by (simp add: fs_eval)
  from a f show ?thesis
    by (simp add: create_file_def)
qed

section \<open>Properties: reading a file\<close>





section \<open>Properties: running a command\<close>

lemma demo_world_fs_same: "demo_world\<lparr>fs := demo_tree\<rparr> = demo_world"
  by (simp add: demo_world_def)

text \<open>A command that is allowed, in a directory that exists, and that is still running
  when the timer fires, is reported as a success with the status of the kill signal.\<close>

lemma execute_command_overrun:
  assumes "is_command_allowed cfg command = Inr (True, message)"
    and "isdir w working_directory"
    and "interrupted_at (spawn w command working_directory) = None"
    and "case finishes_after (spawn w command working_directory) of
           None \<Rightarrow> True | Some t \<Rightarrow> 30 \<le> t"
  shows "map_of (fst (execute_command cfg w command working_directory)) ''success''
           = Some (JBool True)
         \<and> map_of (fst (execute_command cfg w command working_directory)) ''return_code''
           = Some (JInt (- 9))
         \<and> map_of (fst (execute_command cfg w command working_directory)) ''error'' = None"
proof -
  from assms(2) have ex: "exists w working_directory"
    by (simp add: isdir_def exists_def)
  have c: "\<exists>out err. communicate (spawn w command working_directory) 30
             = (Inr (out, err, - 9), 30)"
    using assms(3,4) by (auto simp: communicate_def split: option.splits)
  then obtain out err where
    "communicate (spawn w command working_directory) 30 = (Inr (out, err, - 9), 30)"
    by blast
  with assms(1,2) ex show ?thesis
    by (simp add: execute_command_def Let_def)
qed

text \<open>
  Claim C1. The command \<open>sleep 60\<close> runs past the thirty seconds. The timer kills the
  process, \<open>communicate()\<close> returns, and the handler reports a success with the return
  code \<open>-9\<close>: the timeout message is not reached.
\<close>

theorem execute_command_sleep_60:
  "finishes_after (spawn demo_world ''sleep 60'' ''.'') = Some 60
   \<and> execute_command demo_config demo_world ''sleep 60'' ''.'' =
       ([(''success'', JBool True),
         (''command'', JStr ''sleep 60''),
         (''working_directory'', JStr ''.''),
         (''stdout'', JStr []),
         (''stderr'', JStr []),
         (''return_code'', JInt (- 9)),
         (''stdout_lines'', JInt 1),
         (''stderr_lines'', JInt 1)], demo_world)"
proof -
  have a: "is_command_allowed demo_config ''sleep 60'' = Inr (True, ''OK'')"
    by (simp add: is_command_allowed_def demo_config_def)
  have d: "isdir demo_world ''.''" "exists demo_world ''.''"
    by (simp_all add: fs_eval)
  have s: "spawn demo_world ''sleep 60'' ''.'' = sleeping_child"
    by (simp add: demo_world_def)
  have c: "communicate sleeping_child 30 = (Inr ([], [], - 9), 30)"
    by (simp add: communicate_def sleeping_child_def quick_child_def)
  have e: "effect_by sleeping_child 30 (fs demo_world) = demo_tree"
    by (simp add: sleeping_child_def quick_child_def demo_world_def)
  have f: "finishes_after sleeping_child = Some 60"
    by (simp add: sleeping_child_def)
  have m: "max_output_lines demo_config = 1000"
    by (simp add: demo_config_def)
  show ?thesis
    using a d
    by (simp add: execute_command_def s c e f m cap_lines_def demo_world_fs_same)
qed

section \<open>Properties: the aggregate search\<close>

text \<open>Called without a list, \<open>codebase_search\<close> takes the default list of globs.\<close>

lemma codebase_search_default:
  "codebase_search ext cfg w query None = codebase_search ext cfg w query (Some default_file_types)"
  by (simp add: codebase_search_def)

text \<open>
  Claim C4. A tool call of \<open>codebase_search\<close> that gives a query and no file types
  reaches the handler with the empty list, not with \<open>None\<close>: the dispatcher reads the
  argument with the default \<open>[]\<close>. The handler then loops over no glob at all: whatever
  the scan would find, the result has no match and the default list is not used.
\<close>

theorem codebase_search_without_file_types:
  "execute_tool_call ext cfg (Some ''codebase_search'') (JObj [(''query'', JStr query)]) w =
     ([(''success'', JBool True),
       (''query'', JStr query),
       (''file_types'', JList []),
       (''matches'', JList []),
       (''total_found'', JInt 0),
       (''truncated'', JBool (max_output_lines cfg \<le> 0))], w)"
  by (simp add: execute_tool_call_def get_def codebase_search_def slice_to_def)

section \<open>Properties: the loop over the tool calls\<close>

text \<open>One payload that does not parse ends the loop with the exception, wherever the
  call stands in the list.\<close>

lemma run_tool_calls_bad_payload:
  assumes "\<exists>tool_call \<in> set calls. \<exists>text message.
             function_arguments tool_call = Some (Fails text message)"
  shows "\<exists>e w'. run_tool_calls ext cfg calls w = (Inl e, w')"
  using assms
proof (induction calls arbitrary: w)
  case Nil
  then show ?case by simp
next
  case (Cons tool_call rest)
  show ?case
  proof (cases "\<exists>text message. function_arguments tool_call = Some (Fails text message)")
    case True
    then show ?thesis by auto
  next
    case False
    with Cons.prems have "\<exists>c \<in> set rest. \<exists>text message.
             function_arguments c = Some (Fails text message)"
      by auto
    from Cons.IH [OF this] have ih: "\<And>w. \<exists>e w'. run_tool_calls ext cfg rest w = (Inl e, w')" .
    show ?thesis
    proof (cases "json_loads (case function_arguments tool_call of
                                None \<Rightarrow> Parses ''{}'' (JObj []) | Some p \<Rightarrow> p)")
      case (Inl e)
      then show ?thesis by simp
    next
      case (Inr arguments)
      obtain result w1 where x: "execute_tool_call ext cfg (function_name tool_call) arguments w
                                  = (result, w1)"
        by (cases "execute_tool_call ext cfg (function_name tool_call) arguments w")
      from ih [of w1] obtain e w' where "run_tool_calls ext cfg rest w1 = (Inl e, w')"
        by blast
      with Inr x show ?thesis by (simp add: Let_def)
    qed
  qed
qed

text \<open>When every payload parses, the loop gives one message for each call, in the order
  of the calls, each with the identifier and the name of its call.\<close>

lemma run_tool_calls_in_order:
  assumes "\<forall>tool_call \<in> set calls. \<forall>text message.
             function_arguments tool_call \<noteq> Some (Fails text message)"
  shows "\<exists>tool_results w'. run_tool_calls ext cfg calls w = (Inr tool_results, w')
           \<and> map msg_tool_call_id tool_results = map call_id calls
           \<and> map msg_name tool_results = map function_name calls
           \<and> map msg_role tool_results = map (\<lambda>c. ''tool'') calls"
  using assms
proof (induction calls arbitrary: w)
  case Nil
  then show ?case by simp
next
  case (Cons tool_call rest)
  from Cons.prems obtain arguments where
    a: "json_loads (case function_arguments tool_call of
                      None \<Rightarrow> Parses ''{}'' (JObj []) | Some p \<Rightarrow> p) = Inr arguments"
    by (cases "function_arguments tool_call"; cases "the (function_arguments tool_call)") auto
  obtain result w1 where x: "execute_tool_call ext cfg (function_name tool_call) arguments w
                              = (result, w1)"
    by (cases "execute_tool_call ext cfg (function_name tool_call) arguments w")
  from Cons.prems have "\<forall>c \<in> set rest. \<forall>text message.
             function_arguments c \<noteq> Some (Fails text message)"
    by simp
  from Cons.IH [OF this, of w1] obtain tool_results w' where
    "run_tool_calls ext cfg rest w1 = (Inr tool_results, w')"
    "map msg_tool_call_id tool_results = map call_id rest"
    "map msg_name tool_results = map function_name rest"
    "map msg_role tool_results = map (\<lambda>c. ''tool'') rest"
    by blast
  with a x show ?case by (simp add: Let_def)
qed

text \<open>Two calls whose payloads parse: the two messages, the second call run in the world
  the first one left.\<close>

lemma run_tool_calls_two:
  assumes "json_loads (case function_arguments a of
                         None \<Rightarrow> Parses ''{}'' (JObj []) | Some p \<Rightarrow> p) = Inr arguments_a"
    and "json_loads (case function_arguments b of
                       None \<Rightarrow> Parses ''{}'' (JObj []) | Some p \<Rightarrow> p) = Inr arguments_b"
    and "execute_tool_call ext cfg (function_name a) arguments_a w = (result_a, w1)"
    and "execute_tool_call ext cfg (function_name b) arguments_b w1 = (result_b, w2)"
  shows "run_tool_calls ext cfg [a, b] w =
           (Inr [\<lparr>msg_tool_call_id = call_id a, msg_role = ''tool'',
                   msg_name = function_name a, msg_content = json_dumps (JObj result_a)\<rparr>,
                 \<lparr>msg_tool_call_id = call_id b, msg_role = ''tool'',
                   msg_name = function_name b, msg_content = json_dumps (JObj result_b)\<rparr>], w2)"
  using assms by (simp add: Let_def)

text \<open>After the loop the assistant message and the tool messages are put at the end of
  the conversation, and the request goes out once more without the tool catalogue.\<close>

lemma handle_chat_completion_follow_up:
  assumes "tools data \<noteq> None" "tools data \<noteq> Some []"
    and "backend data = Inr response" "status_code response = 200"
    and "body_json response = Inr (Some message # choices)"
    and "tool_calls message = Some (tool_call # rest)"
    and "run_tool_calls ext cfg (tool_call # rest) w = (Inr tool_results, w')"
  shows "handle_chat_completion ext cfg backend data w =
           (case backend \<lparr>messages = messages data @ [Assistant message] @ map Tool tool_results,
                          tools = None\<rparr> of
              Inl e \<Rightarrow> (proxy_error e, w')
            | Inr final_response \<Rightarrow>
                (Response (body final_response) (status_code final_response), w'))"
proof -
  obtain ms ts where d: "data = \<lparr>messages = ms, tools = ts\<rparr>"
    by (cases data) simp
  from assms(1,2) d have t: "\<not> (tools data = None \<or> tools data = Some [])"
    by simp
  show ?thesis
    unfolding handle_chat_completion_def Let_def if_not_P [OF t]
    using assms(3-7) d by (simp del: run_tool_calls.simps)
qed


lemmas call_eval = call_create_def call_read_def call_bad_def payload_of_def bad_payload_def
  demo_backend_def demo_request_def demo_reply_def

lemma demo_create_new:
  "execute_tool_call demo_externals demo_config (Some ''create_file'')
     (JObj [(''file_path'', JStr ''new.txt''), (''content'', JStr ''hello'')]) demo_world =
     ([(''success'', JBool True),
       (''message'', JStr ''File created successfully: new.txt''),
       (''size'', JInt 5)],
      demo_world\<lparr>fs := (fs demo_world)([''home'', ''u'', ''new.txt''] \<mapsto> File ''hello'')\<rparr>)"
proof -
  have a: "is_path_allowed demo_config demo_world ''new.txt'' = (True, ''OK'')"
    by (simp add: is_path_allowed_def demo_config_def)
  have d: "dirname ''new.txt'' = []"
    by (simp add: dirname_def)
  have e: "\<not> exists demo_world ''new.txt''"
    by (simp add: fs_eval)
  have w: "write_text demo_world ''new.txt'' ''hello'' =
             Inr (demo_world\<lparr>fs := (fs demo_world)([''home'', ''u'', ''new.txt''] \<mapsto> File ''hello'')\<rparr>)"
    by (simp add: write_text_def fs_eval)
  show ?thesis
    by (simp add: execute_tool_call_def get_def create_file_def a d e w)
qed

text \<open>
  Claim C2. A reply asks for three calls: create \<open>new.txt\<close>, a call whose payload is not
  JSON, create \<open>other.txt\<close>. \<open>json.loads\<close> raises in the loop, outside every handler:
  the first file has been created, the third call is not run, no result is made for the
  second call, and the request ends with the error response of the proxy.
\<close>

theorem bad_payload_ends_the_request:
  "run_tool_calls demo_externals demo_config
     [call_create ''call_1'' ''new.txt'' ''hello'', call_bad ''call_2'',
      call_create ''call_3'' ''other.txt'' ''world''] demo_world =
     (Inl (Exn ''Expecting property name enclosed in double quotes: line 1 column 2 (char 1)''),
      demo_world\<lparr>fs := (fs demo_world)([''home'', ''u'', ''new.txt''] \<mapsto> File ''hello'')\<rparr>)
   \<and> handle_chat_completion demo_externals demo_config
       (demo_backend [call_create ''call_1'' ''new.txt'' ''hello'', call_bad ''call_2'',
                      call_create ''call_3'' ''other.txt'' ''world''])
       demo_request demo_world =
     (Proxy_error
        ''Proxy error: Expecting property name enclosed in double quotes: line 1 column 2 (char 1)'',
      demo_world\<lparr>fs := (fs demo_world)([''home'', ''u'', ''new.txt''] \<mapsto> File ''hello'')\<rparr>)"
proof -
  have r: "run_tool_calls demo_externals demo_config
     [call_create ''call_1'' ''new.txt'' ''hello'', call_bad ''call_2'',
      call_create ''call_3'' ''other.txt'' ''world''] demo_world =
     (Inl (Exn ''Expecting property name enclosed in double quotes: line 1 column 2 (char 1)''),
      demo_world\<lparr>fs := (fs demo_world)([''home'', ''u'', ''new.txt''] \<mapsto> File ''hello'')\<rparr>)"
    by (simp add: call_eval demo_create_new)
  have "handle_chat_completion demo_externals demo_config
       (demo_backend [call_create ''call_1'' ''new.txt'' ''hello'', call_bad ''call_2'',
                      call_create ''call_3'' ''other.txt'' ''world''])
       demo_request demo_world =
     (Proxy_error
        ''Proxy error: Expecting property name enclosed in double quotes: line 1 column 2 (char 1)'',
      demo_world\<lparr>fs := (fs demo_world)([''home'', ''u'', ''new.txt''] \<mapsto> File ''hello'')\<rparr>)"
    unfolding handle_chat_completion_def
    by (simp add: demo_backend_def demo_request_def demo_reply_def r proxy_error_def
        del: run_tool_calls.simps)
  with r show ?thesis by blast
qed

text \<open>
  Claim C3. A reply asks for two calls \<open>[A, B]\<close>, and the payload of \<open>A\<close> is not JSON.
  The loop ends at \<open>A\<close> with the exception of \<open>json.loads\<close>: no tool message is made,
  neither for \<open>A\<close> nor for \<open>B\<close>, nothing is put at the end of the conversation, and the
  request ends with the error response of the proxy. (When both payloads parse, the two
  messages are made in the order of the calls: \<open>run_tool_calls_two\<close>.)
\<close>

theorem two_calls_first_payload_bad:
  "run_tool_calls demo_externals demo_config
     [call_bad ''call_A'', call_read ''call_B'' ''notes.txt''] demo_world =
     (Inl (Exn ''Expecting property name enclosed in double quotes: line 1 column 2 (char 1)''),
      demo_world)
   \<and> handle_chat_completion demo_externals demo_config
       (demo_backend [call_bad ''call_A'', call_read ''call_B'' ''notes.txt''])
       demo_request demo_world =
     (Proxy_error
        ''Proxy error: Expecting property name enclosed in double quotes: line 1 column 2 (char 1)'',
      demo_world)"
proof -
  have r: "run_tool_calls demo_externals demo_config
     [call_bad ''call_A'', call_read ''call_B'' ''notes.txt''] demo_world =
     (Inl (Exn ''Expecting property name enclosed in double quotes: line 1 column 2 (char 1)''),
      demo_world)"
    by (simp add: call_eval)
  have "handle_chat_completion demo_externals demo_config
       (demo_backend [call_bad ''call_A'', call_read ''call_B'' ''notes.txt''])
       demo_request demo_world =
     (Proxy_error
        ''Proxy error: Expecting property name enclosed in double quotes: line 1 column 2 (char 1)'',
      demo_world)"
    unfolding handle_chat_completion_def
    by (simp add: demo_backend_def demo_request_def demo_reply_def r proxy_error_def
        del: run_tool_calls.simps)
  with r show ?thesis by blast
qed

section \<open>Properties: editing a range of lines\<close>

text \<open>Making directories and writing another file leave a file where and as it is.\<close>

lemma walk_mono:
  assumes "\<And>k. t k = Some Dir \<Longrightarrow> t' k = Some Dir"
  shows "walk t cur cs = Some k \<Longrightarrow> walk t' cur cs = Some k"
proof (induction cs arbitrary: cur)
  case Nil
  then show ?case by simp
next
  case (Cons c cs)
  from Cons.prems have d: "t cur = Some Dir"
    by (rule walk_first_dir)
  then have d': "t' cur = Some Dir"
    by (rule assms)
  from Cons.prems d d' Cons.IH show ?case
    by (auto split: if_splits)
qed

lemma resolve_mono:
  assumes "\<And>k. fs w k = Some Dir \<Longrightarrow> fs w' k = Some Dir" and "cwd w' = cwd w"
    and "resolve w p = Some k"
  shows "resolve w' p = Some k"
proof -
  from assms(3) have pne: "p \<noteq> []" by (auto simp: resolve_def)
  show ?thesis
  proof (cases "isabs p")
    case True
    with assms(3) pne have "walk (fs w) [] (split_on CHR ''/'' p) = Some k"
      by (simp add: resolve_def)
    then have "walk (fs w') [] (split_on CHR ''/'' p) = Some k"
      by (rule walk_mono [rotated]) (rule assms(1))
    with True pne show ?thesis by (simp add: resolve_def)
  next
    case False
    with assms(3) pne have "walk (fs w) (cwd w) (split_on CHR ''/'' p) = Some k"
      by (simp add: resolve_def)
    then have "walk (fs w') (cwd w) (split_on CHR ''/'' p) = Some k"
      by (rule walk_mono [rotated]) (rule assms(1))
    with False pne assms(2) show ?thesis by (simp add: resolve_def)
  qed
qed

lemma mkdirs_keeps:
  "mkdirs path t cur cs = (e, t') \<Longrightarrow> t k \<noteq> None \<Longrightarrow> t' k = t k"
proof (induction cs arbitrary: t cur)
  case Nil
  then show ?case by simp
next
  case (Cons c cs)
  show ?case
  proof (cases "t cur \<noteq> Some Dir")
    case True
    with Cons.prems show ?thesis by simp
  next
    case dir: False
    show ?thesis
    proof (cases "c = [] \<or> c = ''.''")
      case True
      with dir Cons.prems have "mkdirs path t cur cs = (e, t')" by auto
      with Cons.IH Cons.prems(2) show ?thesis by blast
    next
      case plain: False
      show ?thesis
      proof (cases "c = ''..''")
        case True
        with dir plain Cons.prems have "mkdirs path t (butlast cur) cs = (e, t')" by auto
        with Cons.IH Cons.prems(2) show ?thesis by blast
      next
        case name: False
        show ?thesis
        proof (cases "t (cur @ [c])")
          case None
          with dir plain name Cons.prems
          have m: "mkdirs path (t(cur @ [c] \<mapsto> Dir)) (cur @ [c]) cs = (e, t')" by auto
          from None Cons.prems(2) have ne: "k \<noteq> cur @ [c]" by auto
          then have "(t(cur @ [c] \<mapsto> Dir)) k \<noteq> None"
            using Cons.prems(2) by simp
          from Cons.IH [OF m this] ne show ?thesis by simp
        next
          case (Some n)
          show ?thesis
          proof (cases n)
            case (File x)
            with Some dir plain name Cons.prems show ?thesis by auto
          next
            case Dir
            with Some dir plain name Cons.prems
            have "mkdirs path t (cur @ [c]) cs = (e, t')" by auto
            with Cons.IH Cons.prems(2) show ?thesis by blast
          qed
        qed
      qed
    qed
  qed
qed

lemma makedirs_keeps:
  assumes "makedirs w path = (e, w1)" and "lookup w p = Some n"
  shows "lookup w1 p = Some n \<and> resolve w1 p = resolve w p \<and> cwd w1 = cwd w \<and> clock w1 = clock w"
proof (cases "path = []")
  case True
  with assms show ?thesis by (simp add: makedirs_def)
next
  case False
  obtain e' t' where m:
    "mkdirs path (fs w) (if isabs path then [] else cwd w) (split_on CHR ''/'' path) = (e', t')"
    by (cases "mkdirs path (fs w) (if isabs path then [] else cwd w) (split_on CHR ''/'' path)")
  with assms(1) False have w1: "w1 = w\<lparr>fs := t'\<rparr>"
    by (simp add: makedirs_def)
  have keep: "t' k = fs w k" if "fs w k \<noteq> None" for k
    using mkdirs_keeps [OF m that] .
  from assms(2) obtain k where k: "resolve w p = Some k" "fs w k = Some n"
    by (auto simp: lookup_def split: option.splits)
  have "resolve w1 p = Some k"
  proof (rule resolve_mono [OF _ _ k(1)])
    show "fs w1 j = Some Dir" if "fs w j = Some Dir" for j
      using that keep [of j] w1 by simp
    show "cwd w1 = cwd w" using w1 by simp
  qed
  then have r: "resolve w1 p = Some k" .
  with k keep [of k] w1 show ?thesis
    by (simp add: lookup_def)
qed

lemma write_text_other:
  assumes "write_text w q new = Inr w2" and "resolve w p = Some k" and "resolve w q \<noteq> Some k"
  shows "resolve w2 p = Some k \<and> fs w2 k = fs w k"
proof -
  from assms(1) obtain kd where kd: "resolve w q = Some kd" "fs w kd \<noteq> Some Dir"
    and w2: "w2 = w\<lparr>fs := (fs w)(kd \<mapsto> File new)\<rparr>"
    by (auto simp: write_text_def split: option.splits if_splits)
  from kd assms(3) have ne: "k \<noteq> kd" by auto
  have "resolve w2 p = Some k"
  proof (rule resolve_mono [OF _ _ assms(2)])
    show "fs w2 j = Some Dir" if "fs w j = Some Dir" for j
      using that kd(2) w2 by auto
    show "cwd w2 = cwd w" using w2 by simp
  qed
  with w2 ne show ?thesis
    by simp
qed

lemma write_text_self:
  assumes "lookup w p = Some (File old)"
  shows "\<exists>w2. write_text w p new = Inr w2 \<and> lookup w2 p = Some (File new)"
proof -
  from assms obtain k where k: "resolve w p = Some k" "fs w k = Some (File old)"
    by (auto simp: lookup_def split: option.splits)
  have "resolve (w\<lparr>fs := (fs w)(k \<mapsto> File new)\<rparr>) p = Some k"
  proof (rule resolve_mono [OF _ _ k(1)])
    show "fs (w\<lparr>fs := (fs w)(k \<mapsto> File new)\<rparr>) j = Some Dir" if "fs w j = Some Dir" for j
      using that k(2) by auto
    show "cwd (w\<lparr>fs := (fs w)(k \<mapsto> File new)\<rparr>) = cwd w" by simp
  qed
  with k show ?thesis
    by (simp add: write_text_def lookup_def)
qed

lemma copy2_keeps:
  assumes "copy2 w src dst = Inr w2" and "lookup w src = Some (File old)"
  shows "lookup w2 src = Some (File old)"
proof -
  define dst' where "dst' = (if isdir w dst then path_join dst (basename src) else dst)"
  from assms(2) obtain k where k: "resolve w src = Some k" "fs w k = Some (File old)"
    by (auto simp: lookup_def split: option.splits)
  from assms(2) have rd: "read_bytes w src = Inr old"
    by (simp add: read_bytes_def)
  from assms(1) have same: "\<not> (exists w dst' \<and> resolve w src = resolve w dst')"
    and wr: "write_text w dst' old = Inr w2"
    by (auto simp: copy2_def dst'_def rd Let_def split: if_splits)
  have "resolve w dst' \<noteq> Some k"
  proof
    assume "resolve w dst' = Some k"
    with k have "exists w dst'" "resolve w src = resolve w dst'"
      by (simp_all add: exists_def lookup_def)
    with same show False by simp
  qed
  from write_text_other [OF wr k(1) this] k(2) show ?thesis
    by (simp add: lookup_def)
qed

lemma create_backup_keeps:
  assumes "create_backup w p = ((True, backup_path), w1)" and "lookup w p = Some (File old)"
  shows "lookup w1 p = Some (File old)"
proof -
  from assms(2) have ex: "exists w p" by (simp add: exists_def)
  obtain e wm where m: "makedirs w backup_dir = (e, wm)"
    by (cases "makedirs w backup_dir")
  from makedirs_keeps [OF m assms(2)] have km: "lookup wm p = Some (File old)" by simp
  from assms(1) ex m have e: "e = None"
    by (cases e) (simp_all add: create_backup_def)
  from assms(1) ex m e obtain bp where
    "copy2 wm p bp = Inr w1"
    by (auto simp: create_backup_def Let_def split: sum.splits)
  from copy2_keeps [OF this km] show ?thesis .
qed

text \<open>The slice assignment of a valid range.\<close>

lemma slice_assign_window:
  assumes "1 \<le> start_line" "start_line \<le> end_line" "start_line \<le> int (length xs)"
  shows "slice_assign xs (start_line - 1) end_line ys
         = take (nat start_line - 1) xs @ ys @ drop (nat end_line) xs"
proof -
  define s where "s = nat start_line"
  define e where "e = nat end_line"
  from assms have se: "1 \<le> s" "s \<le> e" "s \<le> length xs"
    by (simp_all add: s_def e_def)
  have lo: "slice_index (length xs) (start_line - 1) = s - 1"
    using assms se by (simp add: slice_index_def s_def nat_diff_distrib)
  have hi: "slice_index (length xs) end_line = min e (length xs)"
    using assms by (simp add: slice_index_def e_def)
  from se have "max (s - 1) (min e (length xs)) = min e (length xs)"
    by arith
  moreover have "drop (min e (length xs)) xs = drop e xs"
    by (simp add: min_def)
  ultimately show ?thesis
    by (simp add: slice_assign_def lo hi Let_def s_def e_def)
qed

text \<open>The replacement lines written one after the other are the content, and one more
  line feed when the content ends with one: every piece of \<open>content.split\<close> gets a line
  feed then, also the empty piece after the last line feed.\<close>

lemma concat_split_on_terminated:
  "concat (map (\<lambda>line. line @ [sep]) (split_on sep s)) = s @ [sep]"
  by (induction s) (auto split: list.splits)

lemma concat_split_on_open:
  "concat (map (\<lambda>line. line @ [sep]) (butlast (split_on sep s))) @ last (split_on sep s) = s"
  by (induction s) (auto split: list.splits)

lemma new_content_lines_concat:
  "concat (new_content_lines content)
     = (if endswith content [NL] then content @ [NL] else content)"
  by (simp add: new_content_lines_def Let_def concat_split_on_terminated concat_split_on_open)

text \<open>A range edit of a file that is there, at a path that is permitted, after a backup
  that succeeded: the result, and the bytes the file holds afterwards.\<close>

lemma edit_file_writes:
  assumes "fst (is_path_allowed cfg w file_path)"
    and "lookup w file_path = Some (File old)"
    and "create_backup w file_path = ((True, backup_path), w1)"
    and "1 \<le> start_line" and "start_line \<le> end_line"
    and "start_line \<le> int (length (readlines (universal_newlines old)))"
  shows "\<exists>w2. edit_file cfg w file_path content (Some start_line) (Some end_line) =
           ([(''success'', JBool True),
             (''message'', JStr (''File edited successfully (lines '' @ str_int start_line
                @ ''-'' @ str_int end_line @ ''): '' @ file_path)),
             (''backup_path'', json_opt backup_path),
             (''lines_modified'', JInt (end_line - start_line + 1)),
             (''new_lines'', JInt (int (length (new_content_lines content))))], w2)
         \<and> lookup w2 file_path =
             Some (File (concat (take (nat start_line - 1) (readlines (universal_newlines old)))
                         @ concat (new_content_lines content)
                         @ concat (drop (nat end_line) (readlines (universal_newlines old)))))"
proof -
  obtain message where a: "is_path_allowed cfg w file_path = (True, message)"
    using assms(1) by (cases "is_path_allowed cfg w file_path") auto
  from create_backup_keeps [OF assms(3) assms(2)]
  have l1: "lookup w1 file_path = Some (File old)" .
  then have ex: "exists w1 file_path"
    and rd: "read_text w1 file_path = Inr (universal_newlines old)"
    by (simp_all add: exists_def read_text_def read_bytes_def)
  let ?lines = "readlines (universal_newlines old)"
  let ?new = "take (nat start_line - 1) ?lines @ new_content_lines content
              @ drop (nat end_line) ?lines"
  have sl: "slice_assign ?lines (start_line - 1) end_line (new_content_lines content) = ?new"
    using slice_assign_window [OF assms(4,5,6)] .
  from write_text_self [OF l1, of "concat ?new"] obtain w2 where
    wr: "write_text w1 file_path (concat ?new) = Inr w2"
    and l2: "lookup w2 file_path = Some (File (concat ?new))"
    by blast
  have valid: "\<not> (start_line < 1 \<or> end_line < start_line
                  \<or> start_line > int (length ?lines))"
    using assms(4,5,6) by simp
  have "edit_file cfg w file_path content (Some start_line) (Some end_line) =
           ([(''success'', JBool True),
             (''message'', JStr (''File edited successfully (lines '' @ str_int start_line
                @ ''-'' @ str_int end_line @ ''): '' @ file_path)),
             (''backup_path'', json_opt backup_path),
             (''lines_modified'', JInt (end_line - start_line + 1)),
             (''new_lines'', JInt (int (length (new_content_lines content))))], w2)"
    unfolding edit_file_def a assms(3) Let_def
    using ex rd valid wr sl by simp
  with l2 show ?thesis by auto
qed

lemma demo_backup:
  "create_backup demo_world ''notes.txt'' =
     ((True, Some ''backups/notes.txt.20240101_000000.backup''),
      demo_world\<lparr>fs := (fs demo_world)
        ([''home'', ''u'', ''backups''] \<mapsto> Dir,
         [''home'', ''u'', ''backups'', ''notes.txt.20240101_000000.backup'']
           \<mapsto> File ''1\<newline>2\<newline>3\<newline>4\<newline>5\<newline>'')\<rparr>)"
  by (simp add: create_backup_def makedirs_def backup_dir_def copy2_def path_join_def
      basename_def endswith_def read_bytes_def write_text_def fs_eval Let_def)

lemma demo_notes:
  "fst (is_path_allowed demo_config demo_world ''notes.txt'')"
  "lookup demo_world ''notes.txt'' = Some (File ''1\<newline>2\<newline>3\<newline>4\<newline>5\<newline>'')"
  "readlines (universal_newlines ''1\<newline>2\<newline>3\<newline>4\<newline>5\<newline>'')
     = [''1\<newline>'', ''2\<newline>'', ''3\<newline>'', ''4\<newline>'', ''5\<newline>'']"
  by (simp_all add: is_path_allowed_def demo_config_def fs_eval)

text \<open>
  Claim C7. The file \<open>notes.txt\<close> holds the five lines \<open>1\<close> to \<open>5\<close>, and lines 2 to 3
  are edited. With the content \<open>X\<close> the edit succeeds and reports one new line, and the
  file then holds \<open>1\<close>, \<open>X4\<close> and \<open>5\<close>: the replacement line was written without a line
  feed, so line 4 is joined to it; three lines are left, where five less the two of the
  window plus the one new line are four. With the content \<open>X\<close> and a line feed the edit
  reports two new lines, and the file then holds \<open>1\<close>, \<open>X\<close>, an empty line, \<open>4\<close> and
  \<open>5\<close>: the empty piece that \<open>content.split\<close> gives after the last line feed was
  written as a line of its own. By \<open>new_content_lines_concat\<close> no content is written as
  its own lines followed by a line feed.
\<close>

theorem edit_file_lines_2_to_3:
  "read_text demo_world ''notes.txt'' = Inr ''1\<newline>2\<newline>3\<newline>4\<newline>5\<newline>''
   \<and> readlines ''1\<newline>2\<newline>3\<newline>4\<newline>5\<newline>''
       = [''1\<newline>'', ''2\<newline>'', ''3\<newline>'', ''4\<newline>'', ''5\<newline>'']
   \<and> fst (edit_file demo_config demo_world ''notes.txt'' ''X'' (Some 2) (Some 3))
       = [(''success'', JBool True),
          (''message'', JStr ''File edited successfully (lines 2-3): notes.txt''),
          (''backup_path'', JStr ''backups/notes.txt.20240101_000000.backup''),
          (''lines_modified'', JInt 2),
          (''new_lines'', JInt 1)]
   \<and> read_text (snd (edit_file demo_config demo_world ''notes.txt'' ''X'' (Some 2) (Some 3)))
        ''notes.txt'' = Inr ''1\<newline>X4\<newline>5\<newline>''
   \<and> readlines ''1\<newline>X4\<newline>5\<newline>'' = [''1\<newline>'', ''X4\<newline>'', ''5\<newline>'']
   \<and> fst (edit_file demo_config demo_world ''notes.txt'' ''X\<newline>'' (Some 2) (Some 3))
       = [(''success'', JBool True),
          (''message'', JStr ''File edited successfully (lines 2-3): notes.txt''),
          (''backup_path'', JStr ''backups/notes.txt.20240101_000000.backup''),
          (''lines_modified'', JInt 2),
          (''new_lines'', JInt 2)]
   \<and> read_text (snd (edit_file demo_config demo_world ''notes.txt'' ''X\<newline>'' (Some 2) (Some 3)))
        ''notes.txt'' = Inr ''1\<newline>X\<newline>\<newline>4\<newline>5\<newline>''
   \<and> readlines ''1\<newline>X\<newline>\<newline>4\<newline>5\<newline>''
       = [''1\<newline>'', ''X\<newline>'', ''\<newline>'', ''4\<newline>'', ''5\<newline>'']"
proof -
  let ?old = "''1\<newline>2\<newline>3\<newline>4\<newline>5\<newline>''"
  have h4: "(1::int) \<le> 2" and h5: "(2::int) \<le> 3" by simp_all
  have h6: "2 \<le> int (length (readlines (universal_newlines ?old)))" by simp
  have r0: "read_text demo_world ''notes.txt'' = Inr ?old"
    by (simp add: read_text_def read_bytes_def demo_notes(2))
  have l0: "readlines ?old
       = [''1\<newline>'', ''2\<newline>'', ''3\<newline>'', ''4\<newline>'', ''5\<newline>'']"
    by simp
  have n1: "new_content_lines ''X'' = [''X'']"
    by (simp add: new_content_lines_def endswith_def)
  have n2: "new_content_lines ''X\<newline>'' = [''X\<newline>'', ''\<newline>'']"
    by (simp add: new_content_lines_def endswith_def)
  have s: "str_int 2 = ''2''" "str_int 3 = ''3''"
    by (simp_all add: str_int_def str_nat.simps)
  from edit_file_writes [OF demo_notes(1,2) demo_backup h4 h5 h6, of "''X''"]
  obtain w2 where
    e1: "edit_file demo_config demo_world ''notes.txt'' ''X'' (Some 2) (Some 3) =
           ([(''success'', JBool True),
             (''message'', JStr ''File edited successfully (lines 2-3): notes.txt''),
             (''backup_path'', JStr ''backups/notes.txt.20240101_000000.backup''),
             (''lines_modified'', JInt 2),
             (''new_lines'', JInt 1)], w2)"
    and k1: "lookup w2 ''notes.txt'' = Some (File ''1\<newline>X4\<newline>5\<newline>'')"
    by (auto simp: n1 s json_opt_def)
  from edit_file_writes [OF demo_notes(1,2) demo_backup h4 h5 h6, of "''X\<newline>''"]
  obtain w3 where
    e2: "edit_file demo_config demo_world ''notes.txt'' ''X\<newline>'' (Some 2) (Some 3) =
           ([(''success'', JBool True),
             (''message'', JStr ''File edited successfully (lines 2-3): notes.txt''),
             (''backup_path'', JStr ''backups/notes.txt.20240101_000000.backup''),
             (''lines_modified'', JInt 2),
             (''new_lines'', JInt 2)], w3)"
    and k2: "lookup w3 ''notes.txt'' = Some (File ''1\<newline>X\<newline>\<newline>4\<newline>5\<newline>'')"
    by (auto simp: n2 s json_opt_def)
  have r1: "read_text (snd (edit_file demo_config demo_world ''notes.txt'' ''X'' (Some 2) (Some 3)))
        ''notes.txt'' = Inr ''1\<newline>X4\<newline>5\<newline>''"
    by (simp add: e1 read_text_def read_bytes_def k1)
  have r2: "read_text (snd (edit_file demo_config demo_world ''notes.txt'' ''X\<newline>'' (Some 2) (Some 3)))
        ''notes.txt'' = Inr ''1\<newline>X\<newline>\<newline>4\<newline>5\<newline>''"
    by (simp add: e2 read_text_def read_bytes_def k2)
  have l1: "readlines ''1\<newline>X4\<newline>5\<newline>'' = [''1\<newline>'', ''X4\<newline>'', ''5\<newline>'']"
    by simp
  have l2: "readlines ''1\<newline>X\<newline>\<newline>4\<newline>5\<newline>''
       = [''1\<newline>'', ''X\<newline>'', ''\<newline>'', ''4\<newline>'', ''5\<newline>'']"
    by simp
  from r0 l0 r1 l1 r2 l2 show ?thesis
    by (simp add: e1 e2)
qed

end
